theory Spec2Isabelle
  imports Complex_Main
begin

section \<open>Conventions of the embedding\<close>

text \<open>
  The module \<^verbatim>\<open>stellar/tess_stars2px_mod.py\<close> computes on numpy double-precision
  values. They are modelled as HOL reals: rounding, signed zeros, infinities and NaN are
  outside the model. Where a result depends on a quotient whose divisor can be zero, a
  hypothesis excludes the zero divisor (the pixel pitch of \<open>mm_to_pix\<close>) or the model
  writes the case out (\<open>star_in_fov\<close>).
  Python integers are \<open>int\<close>; numpy arrays of a fixed small shape are lists (rows) and
  pairs or triples (2- and 3-vectors); every index that is a run-time value goes through
  \<open>np_get\<close>, which raises as numpy does when the index is out of range.
\<close>

datatype error =
    IndexError
  | KeyError
  | ValueError
  | NameError
  | AssertionError
  | NetworkError

definition deg2rad :: real where
  "deg2rad = pi / 180"

definition rad2deg :: real where
  "rad2deg = 180 / pi"

text \<open>\<^verbatim>\<open>np.mod(x, m)\<close> on floats: the remainder has the sign of the divisor.\<close>

definition np_mod :: "real \<Rightarrow> real \<Rightarrow> real" where
  "np_mod x m = x - m * of_int \<lfloor>x / m\<rfloor>"

text \<open>Indexing a sequence of length \<open>n\<close> with a Python integer: indices from \<open>-n\<close> to
  \<open>-1\<close> count from the end, everything outside \<open>-n .. n-1\<close> raises IndexError.\<close>

definition py_index :: "nat \<Rightarrow> int \<Rightarrow> nat option" where
  "py_index n i =
     (if 0 \<le> i \<and> i < int n then Some (nat i)
      else if - int n \<le> i \<and> i < 0 then Some (nat (i + int n))
      else None)"

definition np_get :: "'a list \<Rightarrow> int \<Rightarrow> error + 'a" where
  "np_get xs i = (case py_index (length xs) i of None \<Rightarrow> Inl IndexError | Some k \<Rightarrow> Inr (xs ! k))"

section \<open>Levine\_FPG: rotation matrices\<close>

type_synonym mat = "real list list"

type_synonym vec3 = "real \<times> real \<times> real"

text \<open>\<^verbatim>\<open>np.zeros((3,3))\<close> and the element assignment \<^verbatim>\<open>mat[i][j] = v\<close>.\<close>

definition zeros33 :: mat where
  "zeros33 = [[0, 0, 0], [0, 0, 0], [0, 0, 0]]"

definition mat_set :: "mat \<Rightarrow> nat \<Rightarrow> nat \<Rightarrow> real \<Rightarrow> mat" where
  "mat_set m i j v = m[i := (m ! i)[j := v]]"

text \<open>
  \<^verbatim>\<open>
  def rotm1(self, ax, ang):
      mat = np.zeros((3,3), dtype=np.double)
      n1 = ax
      n2 = np.mod((n1+1), 3)
      n3 = np.mod((n2+1), 3)
      sinang = np.sin(ang)
      cosang = np.cos(ang)
      mat[n1][n1] = 1.0
      mat[n2][n2] = cosang
      mat[n3][n3] = cosang
      mat[n2][n3] = sinang
      mat[n3][n2] = -sinang
      return mat
  \<close>
  \<open>n2\<close> and \<open>n3\<close> are remainders modulo 3, hence always valid indices; \<open>n1\<close> is the
  caller's integer and is the only index that can raise.
\<close>

definition rotm1 :: "int \<Rightarrow> real \<Rightarrow> error + mat" where
  "rotm1 ax ang =
     (let n1 = ax;
          n2 = (n1 + 1) mod 3;
          n3 = (n2 + 1) mod 3;
          sinang = sin ang;
          cosang = cos ang
      in case py_index 3 n1 of
           None \<Rightarrow> Inl IndexError
         | Some i1 \<Rightarrow>
             let m1 = mat_set zeros33 i1 i1 1;
                 m2 = mat_set m1 (nat n2) (nat n2) cosang;
                 m3 = mat_set m2 (nat n3) (nat n3) cosang;
                 m4 = mat_set m3 (nat n2) (nat n3) sinang;
                 m5 = mat_set m4 (nat n3) (nat n2) (- sinang)
             in Inr m5)"

text \<open>The spec's wording of the sign placement, for comparison with \<open>rotm1\<close>: of the two
  cross terms of the off-axis indices, the one above the diagonal is \<open>+sin\<close> and the one
  below the diagonal is \<open>-sin\<close>.\<close>

definition rotm1_spec_signs :: "nat \<Rightarrow> real \<Rightarrow> mat \<Rightarrow> bool" where
  "rotm1_spec_signs ax ang m =
     (let lo = (if ax = 0 then 1 else 0);
          hi = (if ax = 2 then 1 else 2)
      in m ! lo ! hi = sin ang \<and> m ! hi ! lo = - sin ang)"

section \<open>Levine\_FPG: the geometry object\<close>

record fpg =
  eulcam :: "(real \<times> real \<times> real) list"
  optcon :: "real list list"
  ccdxy0 :: "(real \<times> real) list list"
  pixsz :: "(real \<times> real) list list"
  ccdang :: "real list list"
  ccdtilt :: "(real \<times> real) list list"
  asymang :: "real list"
  asymfac :: "real list"
  rmat1 :: mat
  rmat4 :: "mat list"
  havePointing :: bool

text \<open>
  \<^verbatim>\<open>
  def xyrotate(self, angle_deg, xin):
      deg2rad = np.pi / 180.0
      ca = np.cos(deg2rad * angle_deg)
      sa = np.sin(deg2rad * angle_deg)
      xyout = np.zeros_like(xin)
      xyout[0] = ca*xin[0] + sa*xin[1]
      xyout[1] = -sa*xin[0] + ca*xin[1]
      return xyout
  \<close>
\<close>

definition xyrotate :: "real \<Rightarrow> real \<times> real \<Rightarrow> real \<times> real" where
  "xyrotate angle_deg xin =
     (let ca = cos (deg2rad * angle_deg);
          sa = sin (deg2rad * angle_deg)
      in (ca * fst xin + sa * snd xin, - sa * fst xin + ca * snd xin))"

subsection \<open>mm\_to\_pix\<close>

definition CCDWD_T :: real where "CCDWD_T = 2048"
definition CCDHT_T :: real where "CCDHT_T = 2058"
definition ROWA :: real where "ROWA = 44"
definition ROWB :: real where "ROWB = 44"
definition COLDK_T :: real where "COLDK_T = 20"

text \<open>
  The five lines every branch of \<^verbatim>\<open>mm_to_pix\<close> repeats, with the branch's literal
  \<^verbatim>\<open>iccd\<close>:
  \<^verbatim>\<open>
  xyb[0] = xya[0] - self.ccdxy0[icam][iccd][0]
  xyb[1] = xya[1] - self.ccdxy0[icam][iccd][1]
  xyccd = self.xyrotate(self.ccdang[icam][iccd], xyb)
  ccdpx[0] = (xyccd[0] / self.pixsz[icam][iccd][0]) - 0.5
  ccdpx[1] = (xyccd[1] / self.pixsz[icam][iccd][1]) - 0.5
  \<close>
  Each array access raises IndexError when \<^verbatim>\<open>icam\<close> or \<^verbatim>\<open>iccd\<close> is out of range for
  that array.
\<close>

definition ccd_pixel :: "fpg \<Rightarrow> int \<Rightarrow> int \<Rightarrow> real \<times> real \<Rightarrow> error + real \<times> real" where
  "ccd_pixel g icam iccd xya =
     (case np_get (ccdxy0 g) icam of Inl e \<Rightarrow> Inl e | Inr xy0row \<Rightarrow>
      case np_get xy0row iccd of Inl e \<Rightarrow> Inl e | Inr xy0 \<Rightarrow>
      case np_get (ccdang g) icam of Inl e \<Rightarrow> Inl e | Inr angrow \<Rightarrow>
      case np_get angrow iccd of Inl e \<Rightarrow> Inl e | Inr ang \<Rightarrow>
      case np_get (pixsz g) icam of Inl e \<Rightarrow> Inl e | Inr pszrow \<Rightarrow>
      case np_get pszrow iccd of Inl e \<Rightarrow> Inl e | Inr psz \<Rightarrow>
        let xyb = (fst xya - fst xy0, snd xya - snd xy0);
            xyccd = xyrotate ang xyb
        in Inr (fst xyccd / fst psz - 0.5, snd xyccd / snd psz - 0.5))"

text \<open>
  \<^verbatim>\<open>
  def mm_to_pix(self, icam, xy):
      CCDWD_T=2048; CCDHT_T=2058; ROWA=44; ROWB=44; COLDK_T=20
      xya = np.copy(xy)
      ...
      if xya[0] >= 0.0:
          if xya[1] >= 0.0:
              iccd = 0
              ...
              fitpx[0] = (CCDWD_T - ccdpx[0]) + CCDWD_T + 2*ROWA + ROWB - 1.0
              fitpx[1] = (CCDHT_T - ccdpx[1]) + CCDHT_T + 2*COLDK_T - 1.0
          else:
              iccd = 3
              ...
              fitpx[0] = ccdpx[0] + CCDWD_T + 2*ROWA + ROWB
              fitpx[1] = ccdpx[1]
      else:
          if xya[1] >= 0.0:
              iccd = 1
              ...
              fitpx[0] = (CCDWD_T - ccdpx[0]) + ROWA - 1.0
              fitpx[1] = (CCDHT_T - ccdpx[1]) + CCDHT_T + 2*COLDK_T - 1.0
          else:
              iccd = 2
              ...
              fitpx[0] = ccdpx[0] + ROWA
              fitpx[1] = ccdpx[1]
      return iccd, ccdpx, fitpx
  \<close>
\<close>

definition mm_to_pix ::
  "fpg \<Rightarrow> int \<Rightarrow> real \<times> real \<Rightarrow> error + int \<times> (real \<times> real) \<times> (real \<times> real)" where
  "mm_to_pix g icam xy =
     (let xya = xy in
      if fst xya \<ge> 0 then
        if snd xya \<ge> 0 then
          (case ccd_pixel g icam 0 xya of Inl e \<Rightarrow> Inl e | Inr ccdpx \<Rightarrow>
             Inr (0, ccdpx,
                  ((CCDWD_T - fst ccdpx) + CCDWD_T + 2 * ROWA + ROWB - 1,
                   (CCDHT_T - snd ccdpx) + CCDHT_T + 2 * COLDK_T - 1)))
        else
          (case ccd_pixel g icam 3 xya of Inl e \<Rightarrow> Inl e | Inr ccdpx \<Rightarrow>
             Inr (3, ccdpx,
                  (fst ccdpx + CCDWD_T + 2 * ROWA + ROWB,
                   snd ccdpx)))
      else
        if snd xya \<ge> 0 then
          (case ccd_pixel g icam 1 xya of Inl e \<Rightarrow> Inl e | Inr ccdpx \<Rightarrow>
             Inr (1, ccdpx,
                  ((CCDWD_T - fst ccdpx) + ROWA - 1,
                   (CCDHT_T - snd ccdpx) + CCDHT_T + 2 * COLDK_T - 1)))
        else
          (case ccd_pixel g icam 2 xya of Inl e \<Rightarrow> Inl e | Inr ccdpx \<Rightarrow>
             Inr (2, ccdpx,
                  (fst ccdpx + ROWA,
                   snd ccdpx))))"

text \<open>The spec's wording of the mapping, for comparison with \<open>mm_to_pix\<close>: the quadrant
  table, the translate-rotate-scale chain and the table of FITS formulas.\<close>

definition spec_quadrant_ccd :: "real \<times> real \<Rightarrow> int" where
  "spec_quadrant_ccd xy =
     (if 0 \<le> fst xy \<and> 0 \<le> snd xy then 0
      else if fst xy < 0 \<and> 0 \<le> snd xy then 1
      else if fst xy < 0 \<and> snd xy < 0 then 2
      else 3)"

definition spec_ccd_local ::
  "real \<times> real \<Rightarrow> real \<Rightarrow> real \<times> real \<Rightarrow> real \<times> real \<Rightarrow> real \<times> real" where
  "spec_ccd_local origin angle pitch xy =
     (let tx = fst xy - fst origin;
          ty = snd xy - snd origin;
          rx = tx * cos (angle * pi / 180) + ty * sin (angle * pi / 180);
          ry = ty * cos (angle * pi / 180) - tx * sin (angle * pi / 180)
      in (rx / fst pitch - 1 / 2, ry / snd pitch - 1 / 2))"

definition spec_fits :: "int \<Rightarrow> real \<times> real \<Rightarrow> real \<times> real" where
  "spec_fits iccd c =
     (if iccd = 0 then ((2048 - fst c) + 2048 + 2 * 44 + 44 - 1, (2058 - snd c) + 2058 + 2 * 20 - 1)
      else if iccd = 1 then ((2048 - fst c) + 44 - 1, (2058 - snd c) + 2058 + 2 * 20 - 1)
      else if iccd = 2 then (fst c + 44, snd c)
      else (fst c + 2048 + 2 * 44 + 44, snd c))"

text \<open>The tables of a geometry object have the shape the constructor gives them
  (\<^verbatim>\<open>np.zeros((NCAM, NCCD, 2))\<close> and \<^verbatim>\<open>np.zeros((NCAM, NCCD))\<close> with
  \<^verbatim>\<open>NCAM = NCCD = 4\<close>), and no pixel pitch is zero.\<close>

definition ccd_tables_ok :: "fpg \<Rightarrow> bool" where
  "ccd_tables_ok g =
     (length (ccdxy0 g) = 4 \<and> length (ccdang g) = 4 \<and> length (pixsz g) = 4 \<and>
      list_all (\<lambda>r. length r = 4) (ccdxy0 g) \<and>
      list_all (\<lambda>r. length r = 4) (ccdang g) \<and>
      list_all (\<lambda>r. length r = 4 \<and> list_all (\<lambda>p. fst p \<noteq> 0 \<and> snd p \<noteq> 0) r) (pixsz g))"

subsection \<open>Spherical and Cartesian coordinates\<close>

text \<open>
  \<^verbatim>\<open>
  def sphereToCart(self, ras, decs):
      deg2rad = np.pi / 180.0
      rarads = deg2rad * ras
      decrads = deg2rad * decs
      sinras = np.sin(rarads)
      cosras = np.cos(rarads)
      sindecs = np.sin(decrads)
      cosdecs = np.cos(decrads)
      vec0s = cosras * cosdecs
      vec1s = sinras * cosdecs
      vec2s = sindecs
      return vec0s, vec1s, vec2s
  \<close>
  The function is called with scalars (\<open>sphereToCart\<close>) and with arrays
  (\<open>sphereToCart_arr\<close>, where the products broadcast).
\<close>

definition sphereToCart :: "real \<Rightarrow> real \<Rightarrow> vec3" where
  "sphereToCart ras decs =
     (let rarads = deg2rad * ras;
          decrads = deg2rad * decs;
          sinras = sin rarads;
          cosras = cos rarads;
          sindecs = sin decrads;
          cosdecs = cos decrads
      in (cosras * cosdecs, sinras * cosdecs, sindecs))"

text \<open>The elementwise product of two one-dimensional arrays: equal lengths, or one of
  them of length 1 (broadcast); any other pair of shapes raises ValueError.\<close>

definition np_mul :: "real list \<Rightarrow> real list \<Rightarrow> error + real list" where
  "np_mul xs ys =
     (if length xs = length ys then Inr (map (\<lambda>(x, y). x * y) (zip xs ys))
      else if length xs = 1 then Inr (map (\<lambda>y. hd xs * y) ys)
      else if length ys = 1 then Inr (map (\<lambda>x. x * hd ys) xs)
      else Inl ValueError)"

definition sphereToCart_arr ::
  "real list \<Rightarrow> real list \<Rightarrow> error + real list \<times> real list \<times> real list" where
  "sphereToCart_arr ras decs =
     (let rarads = map (\<lambda>r. deg2rad * r) ras;
          decrads = map (\<lambda>d. deg2rad * d) decs;
          sinras = map sin rarads;
          cosras = map cos rarads;
          sindecs = map sin decrads;
          cosdecs = map cos decrads
      in case np_mul cosras cosdecs of Inl e \<Rightarrow> Inl e | Inr vec0s \<Rightarrow>
         case np_mul sinras cosdecs of Inl e \<Rightarrow> Inl e | Inr vec1s \<Rightarrow>
           Inr (vec0s, vec1s, sindecs))"

text \<open>\<^verbatim>\<open>np.arctan2(y, x)\<close>: the angle in \<open>(-\<pi>, \<pi>]\<close> of the point \<open>(x, y)\<close>, and 0 at the
  origin; this is the argument of the complex number \<open>x + iy\<close>.\<close>

definition np_arctan2 :: "real \<Rightarrow> real \<Rightarrow> real" where
  "np_arctan2 y x = Arg (Complex x y)"

text \<open>
  \<^verbatim>\<open>
  def cartToSphere(self, vec):
      ra = 0.0
      dec = 0.0
      norm = np.sqrt(np.sum(vec*vec))
      if (norm > 0.0):
          dec = np.arcsin(vec[2] / norm)
          if (not vec[0] == 0.0) or (not vec[1] == 0.0):
              ra = np.arctan2(vec[1], vec[0])
              ra = np.mod(ra, 2.0*np.pi)
      return ra, dec
  \<close>
\<close>

definition cartToSphere :: "vec3 \<Rightarrow> real \<times> real" where
  "cartToSphere vec =
     (case vec of (v0, v1, v2) \<Rightarrow>
        let norm = sqrt (v0 * v0 + v1 * v1 + v2 * v2) in
        if norm > 0 then
          (let dec = arcsin (v2 / norm) in
           if v0 \<noteq> 0 \<or> v1 \<noteq> 0 then (np_mod (np_arctan2 v1 v0) (2 * pi), dec)
           else (0, dec))
        else (0, 0))"

text \<open>The spec's wording of the round trip: the pair of degrees comes back as it went in.\<close>

definition spec_round_trip :: "real \<Rightarrow> real \<Rightarrow> bool" where
  "spec_round_trip ra dec = (cartToSphere (sphereToCart ra dec) = (ra, dec))"

subsection \<open>The field-of-view test and the optical model\<close>

text \<open>
  \<^verbatim>\<open>
  def star_in_fov(self, lng, lat):
      deg2rad = np.pi / 180.0
      inView = False
      if lat > 70.0:
          vec0, vec1, vec2 = self.sphereToCart(lng, lat)
          vec = np.array([vec0, vec1, vec2], dtype=np.double)
          norm = np.sqrt(np.sum(vec*vec))
          if norm > 0.0:
              vec = vec / norm
              xlen = np.abs(np.arctan(vec[0]/vec[2]))
              ylen = np.abs(np.arctan(vec[1]/vec[2]))
              if (xlen <= (12.5 * deg2rad)) and (ylen <= (12.5 * deg2rad)):
                  inView = True
      return inView
  \<close>
  When \<^verbatim>\<open>vec[2]\<close> is zero the quotients are infinite or NaN, \<^verbatim>\<open>arctan\<close> gives
  \<open>\<plusminus>\<pi>/2\<close> or NaN, and the comparison with 12.5 degrees fails: the star is not in view.
  The model writes this case out, since a quotient by zero is 0 in HOL.
\<close>

definition star_in_fov :: "real \<Rightarrow> real \<Rightarrow> bool" where
  "star_in_fov lng lat =
     (if lat > 70 then
        (case sphereToCart lng lat of (vec0, vec1, vec2) \<Rightarrow>
           let norm = sqrt (vec0 * vec0 + vec1 * vec1 + vec2 * vec2) in
           if norm > 0 then
             (let v0 = vec0 / norm; v1 = vec1 / norm; v2 = vec2 / norm in
              if v2 = 0 then False
              else
                (let xlen = \<bar>arctan (v0 / v2)\<bar>;
                     ylen = \<bar>arctan (v1 / v2)\<bar>
                 in xlen \<le> 12.5 * deg2rad \<and> ylen \<le> 12.5 * deg2rad))
           else False)
      else False)"

text \<open>
  \<^verbatim>\<open>
  def make_az_asym(self, icam, xy):
      xyp = self.xyrotate(self.asymang[icam], xy)
      xypa = np.zeros_like(xyp)
      xypa[0] = self.asymfac[icam] * xyp[0]
      xypa[1] = xyp[1]
      xyout = self.xyrotate(-self.asymang[icam], xypa)
      return xyout
  \<close>
\<close>

definition make_az_asym :: "fpg \<Rightarrow> int \<Rightarrow> real \<times> real \<Rightarrow> error + real \<times> real" where
  "make_az_asym g icam xy =
     (case np_get (asymang g) icam of Inl e \<Rightarrow> Inl e | Inr aang \<Rightarrow>
      case np_get (asymfac g) icam of Inl e \<Rightarrow> Inl e | Inr afac \<Rightarrow>
        let xyp = xyrotate aang xy;
            xypa = (afac * fst xyp, snd xyp)
        in Inr (xyrotate (- aang) xypa))"

text \<open>
  \<^verbatim>\<open>
  def optics_fp(self, icam, lng_deg, lat_deg):
      deg2rad = np.pi / 180.0
      thetar = np.pi / 2.0 - (lat_deg * deg2rad)
      tanth = np.tan(thetar)
      cphi = np.cos(deg2rad*lng_deg)
      sphi = np.sin(deg2rad*lng_deg)
      rfp0 = self.optcon[icam][0]*tanth
      noptcon = len(self.optcon[icam])
      ii = np.arange(1, noptcon)
      rfp = np.sum(self.optcon[icam][1:] * np.power(tanth, 2.0*(ii-1)))
      xytmp = np.zeros((2,), dtype=np.double)
      xytmp[0] = -cphi*rfp0*rfp
      xytmp[1] = -sphi*rfp0*rfp
      return self.make_az_asym(icam, xytmp)
  \<close>
  The exponents \<^verbatim>\<open>2.0*(ii-1)\<close> are the even numbers 0, 2, 4, ...
\<close>

definition optics_fp :: "fpg \<Rightarrow> int \<Rightarrow> real \<Rightarrow> real \<Rightarrow> error + real \<times> real" where
  "optics_fp g icam lng_deg lat_deg =
     (let thetar = pi / 2 - lat_deg * deg2rad;
          tanth = tan thetar;
          cphi = cos (deg2rad * lng_deg);
          sphi = sin (deg2rad * lng_deg)
      in case np_get (optcon g) icam of Inl e \<Rightarrow> Inl e | Inr row \<Rightarrow>
         case np_get row 0 of Inl e \<Rightarrow> Inl e | Inr c0 \<Rightarrow>
           let rfp0 = c0 * tanth;
               noptcon = length row;
               ii = [1..<noptcon];
               rfp = sum_list (map (\<lambda>(c, i). c * tanth ^ (2 * (i - 1))) (zip (drop 1 row) ii))
           in make_az_asym g icam (- cphi * rfp0 * rfp, - sphi * rfp0 * rfp))"

subsection \<open>Matrix products and the 3-2-3 Euler rotation\<close>

definition mat33_ok :: "mat \<Rightarrow> bool" where
  "mat33_ok m = (length m = 3 \<and> list_all (\<lambda>r. length r = 3) m)"

text \<open>\<^verbatim>\<open>np.matmul\<close> of a 3x3 matrix with a 3-vector and with a 3x3 matrix; operands of
  another shape do not occur in this program and raise ValueError in the model.\<close>

definition matvec :: "mat \<Rightarrow> vec3 \<Rightarrow> error + vec3" where
  "matvec m v =
     (if mat33_ok m then
        (case v of (v0, v1, v2) \<Rightarrow>
           Inr (m ! 0 ! 0 * v0 + m ! 0 ! 1 * v1 + m ! 0 ! 2 * v2,
                m ! 1 ! 0 * v0 + m ! 1 ! 1 * v1 + m ! 1 ! 2 * v2,
                m ! 2 ! 0 * v0 + m ! 2 ! 1 * v1 + m ! 2 ! 2 * v2))
      else Inl ValueError)"

definition matmul :: "mat \<Rightarrow> mat \<Rightarrow> error + mat" where
  "matmul a b =
     (if mat33_ok a \<and> mat33_ok b then
        Inr (map (\<lambda>i. map (\<lambda>j. a ! i ! 0 * b ! 0 ! j + a ! i ! 1 * b ! 1 ! j + a ! i ! 2 * b ! 2 ! j)
                    [0, 1, 2]) [0, 1, 2])
      else Inl ValueError)"

text \<open>
  \<^verbatim>\<open>
  def eulerm323(self, eul):
      mat1 = self.rotm1(2, eul[0])
      mat2 = self.rotm1(1, eul[1])
      mata = np.matmul(mat2, mat1)
      mat1 = self.rotm1(2, eul[2])
      rmat = np.matmul(mat1, mata)
      return rmat
  \<close>
\<close>

definition eulerm323 :: "vec3 \<Rightarrow> error + mat" where
  "eulerm323 eul =
     (case eul of (e0, e1, e2) \<Rightarrow>
      case rotm1 2 e0 of Inl e \<Rightarrow> Inl e | Inr mat1 \<Rightarrow>
      case rotm1 1 e1 of Inl e \<Rightarrow> Inl e | Inr mat2 \<Rightarrow>
      case matmul mat2 mat1 of Inl e \<Rightarrow> Inl e | Inr mata \<Rightarrow>
      case rotm1 2 e2 of Inl e \<Rightarrow> Inl e | Inr mat1' \<Rightarrow>
        matmul mat1' mata)"

section \<open>Levine\_FPG: class state, instances and construction\<close>

text \<open>
  The class statement
  \<^verbatim>\<open>
  class Levine_FPG():
      parm_dict_list = [{}, {}, {}, {}]
      NCAM = 4 # Number of Cameras
      NCCD = 4 # Number of CCDs per Camera
  \<close>
  creates one list object \<^verbatim>\<open>parm_dict_list\<close>, an attribute of the class. No method assigns
  \<^verbatim>\<open>self.parm_dict_list\<close>, so the attribute lookup \<^verbatim>\<open>self.parm_dict_list\<close> of every
  instance finds this one list, and \<^verbatim>\<open>self.parm_dict_list[icam] = parm_dict\<close> stores into
  it. The program state is therefore modelled as a store: the class-level list, the
  heap of \<^verbatim>\<open>Levine_FPG\<close> instances (an instance is referred to by its address, the
  index in \<open>objs\<close>), the files the program can read, and the console.
\<close>

type_synonym parm_dict = "string \<rightharpoonup> real"

text \<open>What \<^verbatim>\<open>os.path.isfile\<close>, \<^verbatim>\<open>open\<close> and \<^verbatim>\<open>np.genfromtxt\<close> find at a path: no file, a
  file on which reading raises, or the rows (key, value) of a parameter file.\<close>

datatype file_status = NotAFile | Unreadable | Parsed "(string \<times> real) list"

record world =
  parm_dict_list :: "parm_dict list"
  objs :: "fpg list"
  files :: "string \<Rightarrow> file_status"
  console :: "string list"

definition print :: "string \<Rightarrow> world \<Rightarrow> world" where
  "print line w = w\<lparr>console := console w @ [line]\<rparr>"

text \<open>An assignment to an attribute of the instance at address \<open>self\<close>.\<close>

definition self_upd :: "nat \<Rightarrow> (fpg \<Rightarrow> fpg) \<Rightarrow> world \<Rightarrow> world" where
  "self_upd self f w = w\<lparr>objs := (objs w)[self := f (objs w ! self)]\<rparr>"

text \<open>Sequencing of statements that change the state and may raise: an exception ends
  the sequence and leaves the state as it was when it was raised.\<close>

definition bindW ::
  "(world \<Rightarrow> (error + 'a) \<times> world) \<Rightarrow> ('a \<Rightarrow> world \<Rightarrow> (error + 'b) \<times> world) \<Rightarrow>
   world \<Rightarrow> (error + 'b) \<times> world" where
  "bindW m f w = (case m w of (Inl e, w') \<Rightarrow> (Inl e, w') | (Inr x, w') \<Rightarrow> f x w')"

fun forW :: "('a \<Rightarrow> world \<Rightarrow> (error + unit) \<times> world) \<Rightarrow> 'a list \<Rightarrow> world \<Rightarrow> (error + unit) \<times> world" where
  "forW body [] w = (Inr (), w)"
| "forW body (x # xs) w =
     (case body x w of (Inl e, w') \<Rightarrow> (Inl e, w') | (Inr u, w') \<Rightarrow> forW body xs w')"

subsection \<open>The hard-coded parameter tables of read\_levine\_fpg\_file\<close>

definition parm_dict_cam0 :: "(string \<times> real) list" where
  "parm_dict_cam0 =
     [(''ang1_cam1'', 0.101588),
      (''ang2_cam1'', - 36.022035),
      (''ang3_cam1'', 90.048315),
      (''fl_cam1'', 145.948116),
      (''opt_coef1_cam1'', 1.00000140),
      (''opt_coef2_cam1'', 0.24779006),
      (''opt_coef3_cam1'', - 0.22681254),
      (''opt_coef4_cam1'', 10.78243356),
      (''opt_coef5_cam1'', - 34.97817276),
      (''asymang_cam1'', 0.00000000),
      (''asymfac_cam1'', 1.00000000),
      (''x0_ccd1_cam1'', 31.573417),
      (''y0_ccd1_cam1'', 31.551637),
      (''pix_x_ccd1_cam1'', 0.015000),
      (''pix_y_ccd1_cam1'', 0.015000),
      (''ang_ccd1_cam1'', 179.980833),
      (''tilt_x_ccd1_cam1'', 0.000000),
      (''tilt_y_ccd1_cam1'', 0.000000),
      (''x0_ccd2_cam1'', - 0.906060),
      (''y0_ccd2_cam1'', 31.536148),
      (''pix_x_ccd2_cam1'', 0.015000),
      (''pix_y_ccd2_cam1'', 0.015000),
      (''ang_ccd2_cam1'', 180.000000),
      (''tilt_x_ccd2_cam1'', 0.000000),
      (''tilt_y_ccd2_cam1'', 0.000000),
      (''x0_ccd3_cam1'', - 31.652818),
      (''y0_ccd3_cam1'', - 31.438350),
      (''pix_x_ccd3_cam1'', 0.015000),
      (''pix_y_ccd3_cam1'', 0.015000),
      (''ang_ccd3_cam1'', - 0.024851),
      (''tilt_x_ccd3_cam1'', 0.000000),
      (''tilt_y_ccd3_cam1'', 0.000000),
      (''x0_ccd4_cam1'', 0.833161),
      (''y0_ccd4_cam1'', - 31.458180),
      (''pix_x_ccd4_cam1'', 0.015000),
      (''pix_y_ccd4_cam1'', 0.015000),
      (''ang_ccd4_cam1'', 0.001488),
      (''tilt_x_ccd4_cam1'', 0.000000),
      (''tilt_y_ccd4_cam1'', 0.000000)]"

definition parm_dict_cam1 :: "(string \<times> real) list" where
  "parm_dict_cam1 =
     [(''ang1_cam1'', - 0.179412),
      (''ang2_cam1'', - 12.017260),
      (''ang3_cam1'', 90.046500),
      (''fl_cam1'', 145.989933),
      (''opt_coef1_cam1'', 1.00000140),
      (''opt_coef2_cam1'', 0.24069345),
      (''opt_coef3_cam1'', 0.15391120),
      (''opt_coef4_cam1'', 4.05433503),
      (''opt_coef5_cam1'', 3.43136895),
      (''asymang_cam1'', 0.00000000),
      (''asymfac_cam1'', 1.00000000),
      (''x0_ccd1_cam1'', 31.653635),
      (''y0_ccd1_cam1'', 31.470291),
      (''pix_x_ccd1_cam1'', 0.015000),
      (''pix_y_ccd1_cam1'', 0.015000),
      (''ang_ccd1_cam1'', 180.010890),
      (''tilt_x_ccd1_cam1'', 0.000000),
      (''tilt_y_ccd1_cam1'', 0.000000),
      (''x0_ccd2_cam1'', - 0.827405),
      (''y0_ccd2_cam1'', 31.491388),
      (''pix_x_ccd2_cam1'', 0.015000),
      (''pix_y_ccd2_cam1'', 0.015000),
      (''ang_ccd2_cam1'', 180.000000),
      (''tilt_x_ccd2_cam1'', 0.000000),
      (''tilt_y_ccd2_cam1'', 0.000000),
      (''x0_ccd3_cam1'', - 31.543794),
      (''y0_ccd3_cam1'', - 31.550699),
      (''pix_x_ccd3_cam1'', 0.015000),
      (''pix_y_ccd3_cam1'', 0.015000),
      (''ang_ccd3_cam1'', - 0.006624),
      (''tilt_x_ccd3_cam1'', 0.000000),
      (''tilt_y_ccd3_cam1'', 0.000000),
      (''x0_ccd4_cam1'', 0.922834),
      (''y0_ccd4_cam1'', - 31.557268),
      (''pix_x_ccd4_cam1'', 0.015000),
      (''pix_y_ccd4_cam1'', 0.015000),
      (''ang_ccd4_cam1'', - 0.015464),
      (''tilt_x_ccd4_cam1'', 0.000000),
      (''tilt_y_ccd4_cam1'', 0.000000)]"

definition parm_dict_cam2 :: "(string \<times> real) list" where
  "parm_dict_cam2 =
     [(''ang1_cam1'', 0.066596),
      (''ang2_cam1'', 12.007750),
      (''ang3_cam1'', - 89.889085),
      (''fl_cam1'', 146.006602),
      (''opt_coef1_cam1'', 1.00000140),
      (''opt_coef2_cam1'', 0.23452229),
      (''opt_coef3_cam1'', 0.33552009),
      (''opt_coef4_cam1'', 1.92009863),
      (''opt_coef5_cam1'', 12.48880182),
      (''asymang_cam1'', 0.00000000),
      (''asymfac_cam1'', 1.00000000),
      (''x0_ccd1_cam1'', 31.615486),
      (''y0_ccd1_cam1'', 31.413644),
      (''pix_x_ccd1_cam1'', 0.015000),
      (''pix_y_ccd1_cam1'', 0.015000),
      (''ang_ccd1_cam1'', 179.993948),
      (''tilt_x_ccd1_cam1'', 0.000000),
      (''tilt_y_ccd1_cam1'', 0.000000),
      (''x0_ccd2_cam1'', - 0.832993),
      (''y0_ccd2_cam1'', 31.426621),
      (''pix_x_ccd2_cam1'', 0.015000),
      (''pix_y_ccd2_cam1'', 0.015000),
      (''ang_ccd2_cam1'', 180.000000),
      (''tilt_x_ccd2_cam1'', 0.000000),
      (''tilt_y_ccd2_cam1'', 0.000000),
      (''x0_ccd3_cam1'', - 31.548296),
      (''y0_ccd3_cam1'', - 31.606976),
      (''pix_x_ccd3_cam1'', 0.015000),
      (''pix_y_ccd3_cam1'', 0.015000),
      (''ang_ccd3_cam1'', 0.000298),
      (''tilt_x_ccd3_cam1'', 0.000000),
      (''tilt_y_ccd3_cam1'', 0.000000),
      (''x0_ccd4_cam1'', 0.896018),
      (''y0_ccd4_cam1'', - 31.569542),
      (''pix_x_ccd4_cam1'', 0.015000),
      (''pix_y_ccd4_cam1'', 0.015000),
      (''ang_ccd4_cam1'', - 0.006464),
      (''tilt_x_ccd4_cam1'', 0.000000),
      (''tilt_y_ccd4_cam1'', 0.000000)]"

definition parm_dict_cam3 :: "(string \<times> real) list" where
  "parm_dict_cam3 =
     [(''ang1_cam1'', 0.030756),
      (''ang2_cam1'', 35.978116),
      (''ang3_cam1'', - 89.976802),
      (''fl_cam1'', 146.039793),
      (''opt_coef1_cam1'', 1.00000140),
      (''opt_coef2_cam1'', 0.23920416),
      (''opt_coef3_cam1'', 0.13349450),
      (''opt_coef4_cam1'', 4.77768896),
      (''opt_coef5_cam1'', - 1.75114744),
      (''asymang_cam1'', 0.00000000),
      (''asymfac_cam1'', 1.00000000),
      (''x0_ccd1_cam1'', 31.575820),
      (''y0_ccd1_cam1'', 31.316510),
      (''pix_x_ccd1_cam1'', 0.015000),
      (''pix_y_ccd1_cam1'', 0.015000),
      (''ang_ccd1_cam1'', 179.968217),
      (''tilt_x_ccd1_cam1'', 0.000000),
      (''tilt_y_ccd1_cam1'', 0.000000),
      (''x0_ccd2_cam1'', - 0.890877),
      (''y0_ccd2_cam1'', 31.363511),
      (''pix_x_ccd2_cam1'', 0.015000),
      (''pix_y_ccd2_cam1'', 0.015000),
      (''ang_ccd2_cam1'', 180.000000),
      (''tilt_x_ccd2_cam1'', 0.000000),
      (''tilt_y_ccd2_cam1'', 0.000000),
      (''x0_ccd3_cam1'', - 31.630470),
      (''y0_ccd3_cam1'', - 31.716942),
      (''pix_x_ccd3_cam1'', 0.015000),
      (''pix_y_ccd3_cam1'', 0.015000),
      (''ang_ccd3_cam1'', - 0.024359),
      (''tilt_x_ccd3_cam1'', 0.000000),
      (''tilt_y_ccd3_cam1'', 0.000000),
      (''x0_ccd4_cam1'', 0.824159),
      (''y0_ccd4_cam1'', - 31.728751),
      (''pix_x_ccd4_cam1'', 0.015000),
      (''pix_y_ccd4_cam1'', 0.015000),
      (''ang_ccd4_cam1'', - 0.024280),
      (''tilt_x_ccd4_cam1'', 0.000000),
      (''tilt_y_ccd4_cam1'', 0.000000)]"

definition hard_coded_parms :: "nat \<Rightarrow> parm_dict" where
  "hard_coded_parms icam =
     (if icam = 0 then map_of parm_dict_cam0
      else if icam = 1 then map_of parm_dict_cam1
      else if icam = 2 then map_of parm_dict_cam2
      else if icam = 3 then map_of parm_dict_cam3
      else Map.empty)"

text \<open>The loop \<^verbatim>\<open>parm_dict[parm_keys[i]] = parm_values[i]\<close> over the rows of a file: a later
  row with the same key replaces an earlier one.\<close>

definition dict_of_rows :: "(string \<times> real) list \<Rightarrow> parm_dict" where
  "dict_of_rows rows = fold (\<lambda>(k, v) m. m(k \<mapsto> v)) rows Map.empty"

definition msg_successful :: "string \<Rightarrow> string" where
  "msg_successful fpg_file = ''Successful Focal Plane Geometry Read From '' @ fpg_file"

definition msg_could_not_open :: "string \<Rightarrow> string" where
  "msg_could_not_open fpg_file =
     ''Could not open '' @ fpg_file @
     ''!  Using Hard-coded Focal Plane Geometry from Levine_FPG read_levine_fpg_file()''"

text \<open>
  \<^verbatim>\<open>
  def read_levine_fpg_file(self, icam, fpg_file):
      gotParm = False
      parm_dict = {}
      if os.path.isfile(fpg_file):
          try:
              fpin = open(fpg_file, 'r')
              ...
              for i in range(len(parm_keys)):
                  parm_dict[parm_keys[i]] = parm_values[i]
              self.parm_dict_list[icam] = parm_dict
              gotParm = True
              print('Successful Focal Plane Geometry Read From {0}'.format(fpg_file))
          except:
              print('Could not open {0}!  Using Hard-coded ...'.format(fpg_file))
      if not gotParm:
          if icam == 0:
              parm_dict = {...}
          ...
          self.parm_dict_list[icam] = parm_dict
  \<close>
  The store into \<^verbatim>\<open>self.parm_dict_list[icam]\<close> raises IndexError when \<^verbatim>\<open>icam\<close> is not an
  index of the class-level list; inside the \<^verbatim>\<open>try\<close> the bare \<^verbatim>\<open>except\<close> catches it.
\<close>

definition read_levine_fpg_file :: "nat \<Rightarrow> string \<Rightarrow> world \<Rightarrow> (error + unit) \<times> world" where
  "read_levine_fpg_file icam fpg_file w =
     (let (gotParm, w1) =
        (case files w fpg_file of
           NotAFile \<Rightarrow> (False, w)
         | Unreadable \<Rightarrow> (False, print (msg_could_not_open fpg_file) w)
         | Parsed rows \<Rightarrow>
             if icam < length (parm_dict_list w) then
               (True, print (msg_successful fpg_file)
                        (w\<lparr>parm_dict_list := (parm_dict_list w)[icam := dict_of_rows rows]\<rparr>))
             else (False, print (msg_could_not_open fpg_file) w))
      in if \<not> gotParm then
           (if icam < length (parm_dict_list w1) then
              (Inr (), w1\<lparr>parm_dict_list := (parm_dict_list w1)[icam := hard_coded_parms icam]\<rparr>)
            else (Inl IndexError, w1))
         else (Inr (), w1))"

subsection \<open>The constructor\<close>

text \<open>The attribute assignments at the head of \<^verbatim>\<open>__init__\<close>: arrays of zeros of the
  shapes \<^verbatim>\<open>(NCAM,3)\<close>, \<^verbatim>\<open>(NCAM,6)\<close>, \<^verbatim>\<open>(NCAM,NCCD,2)\<close>, \<^verbatim>\<open>(NCAM,NCCD)\<close>, \<^verbatim>\<open>(NCAM,)\<close>,
  \<^verbatim>\<open>(3,3)\<close> and \<^verbatim>\<open>(NCAM,3,3)\<close>, and \<^verbatim>\<open>havePointing = False\<close>.\<close>

definition fpg_zeros :: fpg where
  "fpg_zeros =
     \<lparr>eulcam = [(0, 0, 0), (0, 0, 0), (0, 0, 0), (0, 0, 0)],
      optcon = [[0, 0, 0, 0, 0, 0], [0, 0, 0, 0, 0, 0], [0, 0, 0, 0, 0, 0], [0, 0, 0, 0, 0, 0]],
      ccdxy0 = [[(0, 0), (0, 0), (0, 0), (0, 0)], [(0, 0), (0, 0), (0, 0), (0, 0)],
                [(0, 0), (0, 0), (0, 0), (0, 0)], [(0, 0), (0, 0), (0, 0), (0, 0)]],
      pixsz = [[(0, 0), (0, 0), (0, 0), (0, 0)], [(0, 0), (0, 0), (0, 0), (0, 0)],
               [(0, 0), (0, 0), (0, 0), (0, 0)], [(0, 0), (0, 0), (0, 0), (0, 0)]],
      ccdang = [[0, 0, 0, 0], [0, 0, 0, 0], [0, 0, 0, 0], [0, 0, 0, 0]],
      ccdtilt = [[(0, 0), (0, 0), (0, 0), (0, 0)], [(0, 0), (0, 0), (0, 0), (0, 0)],
                 [(0, 0), (0, 0), (0, 0), (0, 0)], [(0, 0), (0, 0), (0, 0), (0, 0)]],
      asymang = [0, 0, 0, 0],
      asymfac = [0, 0, 0, 0],
      rmat1 = zeros33,
      rmat4 = [zeros33, zeros33, zeros33, zeros33],
      havePointing = False\<rparr>"

text \<open>\<^verbatim>\<open>'{0:1d}'.format(n)\<close> for a one-digit \<open>n\<close> (here \<open>n = iccd + 1 \<le> 4\<close>), and the keys of
  the CCD parameters, \<^verbatim>\<open>'x0_ccd{0:1d}_cam1'.format(iccd+1)\<close> and the like.\<close>

definition fmt_1d :: "nat \<Rightarrow> string" where
  "fmt_1d n = [''0123456789'' ! n]"

definition ccd_key :: "string \<Rightarrow> nat \<Rightarrow> string" where
  "ccd_key name iccd = name @ ''_ccd'' @ fmt_1d (iccd + 1) @ ''_cam1''"

text \<open>The element assignments of the second loop of \<^verbatim>\<open>read_all_levine_fpg_files\<close>, in the
  order of the source: each is a key of the camera's dictionary and the array element of
  \<^verbatim>\<open>self\<close> that receives the value. The arrays have the shapes \<^verbatim>\<open>__init__\<close> has just
  given them, so only the dictionary lookup can raise (KeyError).
  \<^verbatim>\<open>
  pd = self.parm_dict_list[icam]
  self.eulcam[icam][0] = pd['ang1_cam1']
  self.eulcam[icam][1] = pd['ang2_cam1']
  self.eulcam[icam][2] = pd['ang3_cam1']
  self.optcon[icam][0] = pd['fl_cam1']
  self.optcon[icam][1] = pd['opt_coef1_cam1']
  ...
  self.optcon[icam][5] = pd['opt_coef5_cam1']
  self.asymang[icam] = pd['asymang_cam1']
  self.asymfac[icam] = pd['asymfac_cam1']
  for iccd in range(self.NCCD):
      self.ccdxy0[icam][iccd][0] = pd['x0_ccd{0:1d}_cam1'.format(iccd+1)]
      self.ccdxy0[icam][iccd][1] = pd['y0_ccd{0:1d}_cam1'.format(iccd+1)]
      self.pixsz[icam][iccd][0] = pd['pix_x_ccd{0:1d}_cam1'.format(iccd+1)]
      self.pixsz[icam][iccd][1] = pd['pix_y_ccd{0:1d}_cam1'.format(iccd+1)]
      self.ccdang[icam][iccd] = pd['ang_ccd{0:1d}_cam1'.format(iccd+1)]
      self.ccdtilt[icam][iccd][0] = pd['tilt_x_ccd{0:1d}_cam1'.format(iccd+1)]
      self.ccdtilt[icam][iccd][1] = pd['tilt_y_ccd{0:1d}_cam1'.format(iccd+1)]
  \<close>
\<close>

definition set_eulcam :: "nat \<Rightarrow> nat \<Rightarrow> real \<Rightarrow> fpg \<Rightarrow> fpg" where
  "set_eulcam icam k v g =
     g\<lparr>eulcam := (eulcam g)[icam :=
          (case eulcam g ! icam of (a, b, c) \<Rightarrow>
             if k = 0 then (v, b, c) else if k = 1 then (a, v, c) else (a, b, v))]\<rparr>"

definition set_optcon :: "nat \<Rightarrow> nat \<Rightarrow> real \<Rightarrow> fpg \<Rightarrow> fpg" where
  "set_optcon icam k v g = g\<lparr>optcon := (optcon g)[icam := (optcon g ! icam)[k := v]]\<rparr>"

definition set_asymang :: "nat \<Rightarrow> real \<Rightarrow> fpg \<Rightarrow> fpg" where
  "set_asymang icam v g = g\<lparr>asymang := (asymang g)[icam := v]\<rparr>"

definition set_asymfac :: "nat \<Rightarrow> real \<Rightarrow> fpg \<Rightarrow> fpg" where
  "set_asymfac icam v g = g\<lparr>asymfac := (asymfac g)[icam := v]\<rparr>"

definition set_pair :: "(real \<times> real) list list \<Rightarrow> nat \<Rightarrow> nat \<Rightarrow> nat \<Rightarrow> real \<Rightarrow> (real \<times> real) list list" where
  "set_pair t icam iccd k v =
     t[icam := (t ! icam)[iccd :=
        (case t ! icam ! iccd of (a, b) \<Rightarrow> if k = 0 then (v, b) else (a, v))]]"

definition set_ccdxy0 :: "nat \<Rightarrow> nat \<Rightarrow> nat \<Rightarrow> real \<Rightarrow> fpg \<Rightarrow> fpg" where
  "set_ccdxy0 icam iccd k v g = g\<lparr>ccdxy0 := set_pair (ccdxy0 g) icam iccd k v\<rparr>"

definition set_pixsz :: "nat \<Rightarrow> nat \<Rightarrow> nat \<Rightarrow> real \<Rightarrow> fpg \<Rightarrow> fpg" where
  "set_pixsz icam iccd k v g = g\<lparr>pixsz := set_pair (pixsz g) icam iccd k v\<rparr>"

definition set_ccdang :: "nat \<Rightarrow> nat \<Rightarrow> real \<Rightarrow> fpg \<Rightarrow> fpg" where
  "set_ccdang icam iccd v g = g\<lparr>ccdang := (ccdang g)[icam := (ccdang g ! icam)[iccd := v]]\<rparr>"

definition set_ccdtilt :: "nat \<Rightarrow> nat \<Rightarrow> nat \<Rightarrow> real \<Rightarrow> fpg \<Rightarrow> fpg" where
  "set_ccdtilt icam iccd k v g = g\<lparr>ccdtilt := set_pair (ccdtilt g) icam iccd k v\<rparr>"

definition ccd_assignments :: "nat \<Rightarrow> nat \<Rightarrow> (string \<times> (real \<Rightarrow> fpg \<Rightarrow> fpg)) list" where
  "ccd_assignments icam iccd =
     [(ccd_key ''x0'' iccd, set_ccdxy0 icam iccd 0),
      (ccd_key ''y0'' iccd, set_ccdxy0 icam iccd 1),
      (ccd_key ''pix_x'' iccd, set_pixsz icam iccd 0),
      (ccd_key ''pix_y'' iccd, set_pixsz icam iccd 1),
      (ccd_key ''ang'' iccd, set_ccdang icam iccd),
      (ccd_key ''tilt_x'' iccd, set_ccdtilt icam iccd 0),
      (ccd_key ''tilt_y'' iccd, set_ccdtilt icam iccd 1)]"

definition cam_assignments :: "nat \<Rightarrow> (string \<times> (real \<Rightarrow> fpg \<Rightarrow> fpg)) list" where
  "cam_assignments icam =
     [(''ang1_cam1'', set_eulcam icam 0),
      (''ang2_cam1'', set_eulcam icam 1),
      (''ang3_cam1'', set_eulcam icam 2),
      (''fl_cam1'', set_optcon icam 0),
      (''opt_coef1_cam1'', set_optcon icam 1),
      (''opt_coef2_cam1'', set_optcon icam 2),
      (''opt_coef3_cam1'', set_optcon icam 3),
      (''opt_coef4_cam1'', set_optcon icam 4),
      (''opt_coef5_cam1'', set_optcon icam 5),
      (''asymang_cam1'', set_asymang icam),
      (''asymfac_cam1'', set_asymfac icam)]
     @ concat (map (ccd_assignments icam) [0, 1, 2, 3])"

definition assign_parm :: "nat \<Rightarrow> parm_dict \<Rightarrow> string \<times> (real \<Rightarrow> fpg \<Rightarrow> fpg) \<Rightarrow> world \<Rightarrow> (error + unit) \<times> world" where
  "assign_parm self pd a w =
     (case pd (fst a) of
        None \<Rightarrow> (Inl KeyError, w)
      | Some v \<Rightarrow> (Inr (), self_upd self (snd a v) w))"

definition parse_cam :: "nat \<Rightarrow> nat \<Rightarrow> world \<Rightarrow> (error + unit) \<times> world" where
  "parse_cam self icam w =
     (if icam < length (parm_dict_list w) then
        forW (assign_parm self (parm_dict_list w ! icam)) (cam_assignments icam) w
      else (Inl IndexError, w))"

text \<open>
  \<^verbatim>\<open>
  def read_all_levine_fpg_files(self, fpg_file_list=None):
      default_fpg_file_list = ['fpg_pars.txt-', 'fpg_pars.txt-', 'fpg_pars.txt-', 'fpg_pars.txt-']
      for icam in range(self.NCAM):
          if fpg_file_list == None:
              fpg_file = default_fpg_file_list[icam]
          else:
              fpg_file = fpg_file_list[icam]
          self.read_levine_fpg_file(icam, fpg_file)
      for icam in range(self.NCAM):
          pd = self.parm_dict_list[icam]
          ...
  \<close>
\<close>

definition default_fpg_file_list :: "string list" where
  "default_fpg_file_list = [''fpg_pars.txt-'', ''fpg_pars.txt-'', ''fpg_pars.txt-'', ''fpg_pars.txt-'']"

definition read_cam_file :: "string list option \<Rightarrow> nat \<Rightarrow> world \<Rightarrow> (error + unit) \<times> world" where
  "read_cam_file fpg_file_list icam w =
     (case fpg_file_list of
        None \<Rightarrow> read_levine_fpg_file icam (default_fpg_file_list ! icam) w
      | Some fl \<Rightarrow>
          if icam < length fl then read_levine_fpg_file icam (fl ! icam) w
          else (Inl IndexError, w))"

definition read_all_levine_fpg_files :: "nat \<Rightarrow> string list option \<Rightarrow> world \<Rightarrow> (error + unit) \<times> world" where
  "read_all_levine_fpg_files self fpg_file_list =
     bindW (forW (read_cam_file fpg_file_list) [0, 1, 2, 3])
       (\<lambda>u. forW (parse_cam self) [0, 1, 2, 3])"

text \<open>
  \<^verbatim>\<open>
  def sky_to_sc_mat(self, sc_ra_dec_roll):
      deg2rad = np.pi / 180.0
      xeul = np.zeros((3,), dtype=np.double)
      xeul[0] = deg2rad * sc_ra_dec_roll[0]
      xeul[1] = np.pi/2.0 - deg2rad*sc_ra_dec_roll[1]
      xeul[2] = deg2rad * sc_ra_dec_roll[2] + np.pi
      self.rmat1 = self.eulerm323(xeul)

  def sc_to_cam_mat(self, eul):
      deg2rad = np.pi / 180.0
      xeul = deg2rad * eul
      return self.eulerm323(xeul)
  \<close>
\<close>

definition sky_to_sc_mat :: "nat \<Rightarrow> real list \<Rightarrow> world \<Rightarrow> (error + unit) \<times> world" where
  "sky_to_sc_mat self sc_ra_dec_roll w =
     (if length sc_ra_dec_roll < 3 then (Inl IndexError, w)
      else
        (let xeul = (deg2rad * sc_ra_dec_roll ! 0,
                     pi / 2 - deg2rad * sc_ra_dec_roll ! 1,
                     deg2rad * sc_ra_dec_roll ! 2 + pi)
         in case eulerm323 xeul of
              Inl e \<Rightarrow> (Inl e, w)
            | Inr m \<Rightarrow> (Inr (), self_upd self (\<lambda>g. g\<lparr>rmat1 := m\<rparr>) w)))"

definition sc_to_cam_mat :: "vec3 \<Rightarrow> error + mat" where
  "sc_to_cam_mat eul =
     (case eul of (e0, e1, e2) \<Rightarrow> eulerm323 (deg2rad * e0, deg2rad * e1, deg2rad * e2))"

text \<open>
  \<^verbatim>\<open>
  def __init__(self, sc_ra_dec_roll=None, fpg_file_list=None):
      self.eulcam = np.zeros((self.NCAM,3), dtype=np.double)
      ...
      self.havePointing = False
      # Read in the fpg parameter files
      self.read_all_levine_fpg_files(fpg_file_list)
      # Generate rotation matrices if ra dec and roll values given
      if not sc_ra_dec_roll is None:
          # go from sky to spacecraft
          self.sky_to_sc_mat(sc_ra_dec_roll)
          # Go from spacecraft to each camera's coords
          for icam in range(self.NCAM):
              cureul = self.eulcam[icam,:]
              rmat2 = self.sc_to_cam_mat(cureul)
              self.rmat4[icam] = np.matmul(rmat2, self.rmat1)
          self.havePointing = True
  \<close>
\<close>

definition cam_rotation :: "nat \<Rightarrow> nat \<Rightarrow> world \<Rightarrow> (error + unit) \<times> world" where
  "cam_rotation self icam w =
     (let g = objs w ! self in
      case np_get (eulcam g) (int icam) of Inl e \<Rightarrow> (Inl e, w) | Inr cureul \<Rightarrow>
      case sc_to_cam_mat cureul of Inl e \<Rightarrow> (Inl e, w) | Inr rmat2 \<Rightarrow>
      case matmul rmat2 (rmat1 g) of Inl e \<Rightarrow> (Inl e, w) | Inr m \<Rightarrow>
        if icam < length (rmat4 g) then (Inr (), self_upd self (\<lambda>g. g\<lparr>rmat4 := (rmat4 g)[icam := m]\<rparr>) w)
        else (Inl IndexError, w))"

definition Levine_FPG_init ::
  "nat \<Rightarrow> real list option \<Rightarrow> string list option \<Rightarrow> world \<Rightarrow> (error + unit) \<times> world" where
  "Levine_FPG_init self sc_ra_dec_roll fpg_file_list w =
     bindW (read_all_levine_fpg_files self fpg_file_list)
       (\<lambda>u. case sc_ra_dec_roll of
               None \<Rightarrow> (\<lambda>w'. (Inr (), w'))
             | Some sc \<Rightarrow>
                 bindW (sky_to_sc_mat self sc)
                   (\<lambda>u. bindW (forW (cam_rotation self) [0, 1, 2, 3])
                     (\<lambda>u w'. (Inr (), self_upd self (\<lambda>g. g\<lparr>havePointing := True\<rparr>) w'))))
       (self_upd self (\<lambda>g. fpg_zeros) w)"

text \<open>The call \<^verbatim>\<open>Levine_FPG(sc_ra_dec_roll, fpg_file_list)\<close>: a fresh object at the next free
  address, then \<^verbatim>\<open>__init__\<close> on it; the value of the call is the address.\<close>

definition Levine_FPG_new ::
  "real list option \<Rightarrow> string list option \<Rightarrow> world \<Rightarrow> (error + nat) \<times> world" where
  "Levine_FPG_new sc_ra_dec_roll fpg_file_list w =
     (let self = length (objs w);
          w1 = w\<lparr>objs := objs w @ [fpg_zeros]\<rparr>
      in case Levine_FPG_init self sc_ra_dec_roll fpg_file_list w1 of
           (Inl e, w') \<Rightarrow> (Inl e, w')
         | (Inr u, w') \<Rightarrow> (Inr self, w'))"

text \<open>What a caller holding a reference to the instance at address \<open>a\<close> can read through
  it: the instance's own attributes, and the class attribute \<^verbatim>\<open>parm_dict_list\<close>.\<close>

definition observable :: "world \<Rightarrow> nat \<Rightarrow> fpg \<times> parm_dict list" where
  "observable w a = (objs w ! a, parm_dict_list w)"

text \<open>The state after the module is imported: the class-level list of four empty
  dictionaries, no instance, nothing printed.\<close>

definition module_loaded :: "(string \<Rightarrow> file_status) \<Rightarrow> world" where
  "module_loaded fs =
     \<lparr>parm_dict_list = [Map.empty, Map.empty, Map.empty, Map.empty],
      objs = [], files = fs, console = []\<rparr>"

subsection \<open>radec2pix\<close>

record pix_result =
  inCamera :: "int list"
  ccdNum :: "int list"
  fitsxpos :: "real list"
  fitsypos :: "real list"
  ccdxpos :: "real list"
  ccdypos :: "real list"

definition no_hits :: pix_result where
  "no_hits = \<lparr>inCamera = [], ccdNum = [], fitsxpos = [], fitsypos = [], ccdxpos = [], ccdypos = []\<rparr>"

fun foldE :: "('a \<Rightarrow> 's \<Rightarrow> error + 's) \<Rightarrow> 'a list \<Rightarrow> 's \<Rightarrow> error + 's" where
  "foldE body [] s = Inr s"
| "foldE body (x # xs) s = (case body x s of Inl e \<Rightarrow> Inl e | Inr s' \<Rightarrow> foldE body xs s')"

text \<open>
  \<^verbatim>\<open>
  def radec2pix(self, ras, decs):
      nStar = len(ras)
      inCamera = np.array([], dtype=np.int)
      ccdNum = np.array([], dtype=np.int)
      fitsxpos = np.array([], dtype=np.double)
      fitsypos = np.array([], dtype=np.double)
      ccdxpos = np.array([], dtype=np.double)
      ccdypos = np.array([], dtype=np.double)
      deg2rad = np.pi / 180.0
      if self.havePointing == True:
          vec0s, vec1s, vec2s = self.sphereToCart(ras, decs)
          for i in range(nStar):
              curVec = np.array([vec0s[i], vec1s[i], vec2s[i]], dtype=np.double)
              for j in range(self.NCAM):
                  camVec = np.matmul(self.rmat4[j], curVec)
                  lng, lat = self.cartToSphere(camVec)
                  lng = lng / deg2rad
                  lat = lat / deg2rad
                  if self.star_in_fov(lng, lat):
                      xyfp = self.optics_fp(j, lng, lat)
                      iccd, ccdpx, fitpx = self.mm_to_pix(j, xyfp)
                      inCamera = np.append(inCamera, j+1)
                      ccdNum = np.append(ccdNum, iccd+1)
                      fitsxpos = np.append(fitsxpos, fitpx[0])
                      fitsypos = np.append(fitsypos, fitpx[1])
                      ccdxpos = np.append(ccdxpos, ccdpx[0])
                      ccdypos = np.append(ccdypos, ccdpx[1])
      else:
          print('Spacecraft Pointing Not specified!')
      return inCamera, ccdNum, fitsxpos, fitsypos, ccdxpos, ccdypos
  \<close>
  (\<^verbatim>\<open>np.int\<close> is the alias of \<^verbatim>\<open>int\<close> of the numpy releases the module was written for.)
\<close>

definition radec2pix_cam :: "fpg \<Rightarrow> vec3 \<Rightarrow> nat \<Rightarrow> pix_result \<Rightarrow> error + pix_result" where
  "radec2pix_cam g curVec j r =
     (case np_get (rmat4 g) (int j) of Inl e \<Rightarrow> Inl e | Inr m \<Rightarrow>
      case matvec m curVec of Inl e \<Rightarrow> Inl e | Inr camVec \<Rightarrow>
        let lng = fst (cartToSphere camVec) / deg2rad;
            lat = snd (cartToSphere camVec) / deg2rad
        in if star_in_fov lng lat then
             (case optics_fp g (int j) lng lat of Inl e \<Rightarrow> Inl e | Inr xyfp \<Rightarrow>
              case mm_to_pix g (int j) xyfp of Inl e \<Rightarrow> Inl e | Inr (iccd, ccdpx, fitpx) \<Rightarrow>
                Inr (r\<lparr>inCamera := inCamera r @ [int j + 1],
                       ccdNum := ccdNum r @ [iccd + 1],
                       fitsxpos := fitsxpos r @ [fst fitpx],
                       fitsypos := fitsypos r @ [snd fitpx],
                       ccdxpos := ccdxpos r @ [fst ccdpx],
                       ccdypos := ccdypos r @ [snd ccdpx]\<rparr>))
           else Inr r)"

definition radec2pix_star ::
  "fpg \<Rightarrow> real list \<times> real list \<times> real list \<Rightarrow> nat \<Rightarrow> pix_result \<Rightarrow> error + pix_result" where
  "radec2pix_star g vecs i r =
     (case vecs of (vec0s, vec1s, vec2s) \<Rightarrow>
      case np_get vec0s (int i) of Inl e \<Rightarrow> Inl e | Inr v0 \<Rightarrow>
      case np_get vec1s (int i) of Inl e \<Rightarrow> Inl e | Inr v1 \<Rightarrow>
      case np_get vec2s (int i) of Inl e \<Rightarrow> Inl e | Inr v2 \<Rightarrow>
        foldE (radec2pix_cam g (v0, v1, v2)) [0, 1, 2, 3] r)"

definition radec2pix :: "nat \<Rightarrow> real list \<Rightarrow> real list \<Rightarrow> world \<Rightarrow> (error + pix_result) \<times> world" where
  "radec2pix self ras decs w =
     (let g = objs w ! self;
          nStar = length ras
      in if havePointing g = True then
           (case sphereToCart_arr ras decs of
              Inl e \<Rightarrow> (Inl e, w)
            | Inr vecs \<Rightarrow> (foldE (radec2pix_star g vecs) [0..<nStar] no_hits, w))
         else (Inr no_hits, print ''Spacecraft Pointing Not specified!'' w))"

section \<open>get\_radec\_from\_posangsep\<close>

text \<open>
  \<^verbatim>\<open>
  def get_radec_from_posangsep(ra, dec, pa, sep):
      deg2rad = np.pi/180.0
      rad2deg = 180.0/np.pi
      twopi = 2.0*np.pi
      pidtwo = np.pi/2.0
      rar = ra*deg2rad
      decr = dec*deg2rad
      par = pa*deg2rad
      sepr = sep*deg2rad
      c = pidtwo - decr
      bigB = par
      a = sepr
      b = np.arccos((np.cos(c)*np.cos(a) + np.sin(c)*np.sin(a)*np.cos(bigB)))
      newdec = pidtwo - b
      delalp = np.arccos(np.min([(np.cos(sepr)-np.sin(decr)*np.sin(newdec))/(np.cos(decr)*np.cos(newdec)),1.0]))
      if pa > 180.0:
          newra = rar - delalp
      else:
          newra = rar + delalp
      newra = np.mod(newra, twopi)
      return newra*rad2deg, newdec*rad2deg
  \<close>
  The function has no \<^verbatim>\<open>raise\<close>, no \<^verbatim>\<open>assert\<close> and no indexing; numpy's \<^verbatim>\<open>arccos\<close> and its
  division do not raise, so the model is a total function with no error result.
\<close>

definition posangsep_cos_b :: "real \<Rightarrow> real \<Rightarrow> real \<Rightarrow> real" where
  "posangsep_cos_b dec pa sep =
     (let c = pi / 2 - dec * deg2rad; bigB = pa * deg2rad; a = sep * deg2rad
      in cos c * cos a + sin c * sin a * cos bigB)"

definition get_radec_from_posangsep :: "real \<Rightarrow> real \<Rightarrow> real \<Rightarrow> real \<Rightarrow> real \<times> real" where
  "get_radec_from_posangsep ra dec pa sep =
     (let twopi = 2 * pi;
          pidtwo = pi / 2;
          rar = ra * deg2rad;
          decr = dec * deg2rad;
          sepr = sep * deg2rad;
          b = arccos (posangsep_cos_b dec pa sep);
          newdec = pidtwo - b;
          delalp = arccos (min ((cos sepr - sin decr * sin newdec) / (cos decr * cos newdec)) 1);
          newra = (if pa > 180 then rar - delalp else rar + delalp)
      in (np_mod newra twopi * rad2deg, newdec * rad2deg))"

section \<open>TESS\_Spacecraft\_Pointing\_Data\<close>

text \<open>The class attributes: \<^verbatim>\<open>sectors = np.arange(1,40, dtype=np.int)\<close> and the tables
  \<^verbatim>\<open>ras\<close>, \<^verbatim>\<open>decs\<close>, \<^verbatim>\<open>rolls\<close> and \<^verbatim>\<open>camSeps\<close>.\<close>

definition class_sectors :: "int list" where
  "class_sectors = [1..39]"

definition class_ras :: "real list" where
  "class_ras =
     [352.6844, 16.5571, 36.3138, 55.0070, 73.5382, 92.0096,
      110.2559, 128.1156, 145.9071, 165.0475, 189.1247, 229.5885,
      298.6671, 276.7169, 280.3985, 282.4427, 351.2381, 16.1103,
      60.2026, 129.3867, 171.7951, 197.1008, 217.2879, 261.4516,
      265.6098, 270.1381, 326.8525, 357.2944, 18.9190, 38.3564,
      57.6357, 77.1891, 96.5996, 115.2951, 133.2035, 150.9497,
      170.2540, 195.7176, 242.1981]"

definition class_decs :: "real list" where
  "class_decs =
     [- 64.8531, - 54.0160, - 44.2590, - 36.6420, - 31.9349, - 30.5839,
      - 32.6344, - 37.7370, - 45.3044, - 54.8165, - 65.5369, - 75.1256,
      - 76.3281, 62.4756, 64.0671, 66.1422, 57.8456, 67.9575,
      76.2343, 75.2520, 65.1924, 53.7434, 43.8074, 63.1181,
      61.9383, 61.5637, - 72.4265, - 63.0056, - 52.8296, - 43.3178,
      - 35.7835, - 31.3957, - 30.7848, - 33.7790, - 39.6871, - 47.7512,
      - 57.3725, - 67.8307, - 76.3969]"

definition class_rolls :: "real list" where
  "class_rolls =
     [- 137.8468, - 139.5665, - 146.9616, - 157.1698, - 168.9483, 178.6367,
      166.4476, 155.3091, 145.9163, 139.1724, 138.0761, 153.9773,
      - 161.0622, 32.2329, 55.4277, 79.4699, 41.9686, 40.5453,
      19.6463, 334.5689, 317.9495, 319.6992, 327.4246, 317.2624,
      339.5293, 0.6038, 214.5061, 222.5216, 219.7970, 212.0441,
      201.2334, 188.6263, 175.5369, 163.1916, 152.4006, 143.7306,
      138.1685, 139.3519, 161.5986]"

definition class_camSeps :: "real list" where
  "class_camSeps = [36, 12, 12, 36]"

record pointing_data =
  sectors :: "int list"
  ras :: "real list"
  decs :: "real list"
  rolls :: "real list"
  camRa :: "real list list"
  camDec :: "real list list"
  fpgObjs :: "nat list"

fun foldW ::
  "('a \<Rightarrow> 's \<Rightarrow> world \<Rightarrow> (error + 's) \<times> world) \<Rightarrow> 'a list \<Rightarrow> 's \<Rightarrow> world \<Rightarrow> (error + 's) \<times> world" where
  "foldW body [] s w = (Inr s, w)"
| "foldW body (x # xs) s w =
     (case body x s w of (Inl e, w') \<Rightarrow> (Inl e, w') | (Inr s', w') \<Rightarrow> foldW body xs s' w')"

text \<open>
  \<^verbatim>\<open>
  def __init__(self, trySector=None, fpgParmFileList=None):
      if not trySector is None:
          idx = np.where(self.sectors == trySector)[0]
          self.sectors = self.sectors[idx]
          self.ras = self.ras[idx]
          self.decs = self.decs[idx]
          self.rolls = self.rolls[idx]
      nPoints = len(self.sectors)
      self.camRa = np.zeros((4, nPoints), dtype=np.float)
      self.camDec = np.zeros((4, nPoints), dtype=np.float)
      for iPnt in range(nPoints):
          curra = self.ras[iPnt]
          curdec = self.decs[iPnt]
          curroll = self.rolls[iPnt]
          camposangs = np.array([180.0-curroll, 180.0-curroll, 360.0-curroll, 360.0-curroll])
          camposangs = np.mod(camposangs, 360.0)
          for iCam in range(4):
              pang = camposangs[iCam]
              camra, camdec = get_radec_from_posangsep(curra, curdec, pang, self.camSeps[iCam])
              self.camRa[iCam,iPnt] = camra
              self.camDec[iCam,iPnt] = camdec
      self.fpgObjs = []
      fpg_file_list=None
      if not fpgParmFileList is None:
          fpg_file_list=fpgParmFileList
      for iPnt in range(nPoints):
          sc_ra_dec_roll =  np.array([self.ras[iPnt], self.decs[iPnt], self.rolls[iPnt]])
          self.fpgObjs.append(Levine_FPG(sc_ra_dec_roll, fpg_file_list=fpg_file_list))
  \<close>
  The assignments \<^verbatim>\<open>self.sectors = ...\<close> create attributes of the instance; the class
  tables are not changed. Each cell of \<^verbatim>\<open>camRa\<close> and \<^verbatim>\<open>camDec\<close> is assigned once, so the
  two arrays are given row by row.
\<close>

definition np_where_eq :: "int list \<Rightarrow> int \<Rightarrow> nat list" where
  "np_where_eq xs v = filter (\<lambda>i. xs ! i = v) [0..<length xs]"

definition cam_boresight :: "real \<Rightarrow> real \<Rightarrow> real \<Rightarrow> nat \<Rightarrow> real \<times> real" where
  "cam_boresight curra curdec curroll iCam =
     (let camposangs = map (\<lambda>x. np_mod x 360)
            [180 - curroll, 180 - curroll, 360 - curroll, 360 - curroll];
          pang = camposangs ! iCam
      in get_radec_from_posangsep curra curdec pang (class_camSeps ! iCam))"

definition append_fpg ::
  "real list \<Rightarrow> real list \<Rightarrow> real list \<Rightarrow> string list option \<Rightarrow> nat \<Rightarrow> nat list \<Rightarrow> world \<Rightarrow>
   (error + nat list) \<times> world" where
  "append_fpg ra_tab dec_tab roll_tab fpg_file_list iPnt objects w =
     (case Levine_FPG_new (Some [ra_tab ! iPnt, dec_tab ! iPnt, roll_tab ! iPnt]) fpg_file_list w of
        (Inl e, w') \<Rightarrow> (Inl e, w')
      | (Inr a, w') \<Rightarrow> (Inr (objects @ [a]), w'))"

definition TESS_Spacecraft_Pointing_Data ::
  "int option \<Rightarrow> string list option \<Rightarrow> world \<Rightarrow> (error + pointing_data) \<times> world" where
  "TESS_Spacecraft_Pointing_Data trySector fpgParmFileList w =
     (let (sector_tab, ra_tab, dec_tab, roll_tab) =
            (case trySector of
               None \<Rightarrow> (class_sectors, class_ras, class_decs, class_rolls)
             | Some t \<Rightarrow>
                 let idx = np_where_eq class_sectors t
                 in (map (\<lambda>i. class_sectors ! i) idx, map (\<lambda>i. class_ras ! i) idx,
                     map (\<lambda>i. class_decs ! i) idx, map (\<lambda>i. class_rolls ! i) idx));
          nPoints = length sector_tab;
          cams = (\<lambda>iCam. map (\<lambda>iPnt. cam_boresight (ra_tab ! iPnt) (dec_tab ! iPnt) (roll_tab ! iPnt) iCam)
                            [0..<nPoints]);
          fpg_file_list = fpgParmFileList
      in case foldW (append_fpg ra_tab dec_tab roll_tab fpg_file_list) [0..<nPoints] [] w of
           (Inl e, w') \<Rightarrow> (Inl e, w')
         | (Inr objects, w') \<Rightarrow>
             (Inr \<lparr>sectors = sector_tab, ras = ra_tab, decs = dec_tab, rolls = roll_tab,
                   camRa = map (\<lambda>iCam. map fst (cams iCam)) [0, 1, 2, 3],
                   camDec = map (\<lambda>iCam. map snd (cams iCam)) [0, 1, 2, 3],
                   fpgObjs = objects\<rparr>, w'))"

section \<open>Archive queries and SectFromCoords\<close>

text \<open>
  One round trip to the archive is \<^verbatim>\<open>mastQuery(request)\<close> followed by
  \<^verbatim>\<open>json.loads(outString)\<close>: it raises (no connection, a body that is not JSON), or it
  gives the top-level object of the response. The archive is the environment of the
  program: \<open>env k\<close> is what the \<open>k\<close>-th round trip gives (counted from 0).
\<close>

record tic_row =
  tic_ID :: int
  tic_ra :: real
  tic_dec :: real

datatype jvalue = JString string | JRows "tic_row list" | JOther

type_synonym out_data = "string \<rightharpoonup> jvalue"

datatype reply = Raises error | Reply out_data

text \<open>
  \<^verbatim>\<open>
  while True:
      request = { "service":"Mast.Catalogs.Filtered.Tic", ... }
      headers,outString = mastQuery(request)
      outData = json.loads(outString)
      if outData['status'] != 'EXECUTING':
          break
  \<close>
  The loop has no other exit, no counter and no sleep. It is a partial function: the
  value \<open>None\<close> is the run that never leaves the loop. A run that leaves it returns
  \<^verbatim>\<open>outData\<close> and, for the properties below, the number of round trips made.
\<close>

partial_function (option) ticIdSearch_loop :: "(nat \<Rightarrow> reply) \<Rightarrow> nat \<Rightarrow> (error + out_data \<times> nat) option" where
  "ticIdSearch_loop env k =
     (case env k of
        Raises e \<Rightarrow> Some (Inl e)
      | Reply outData \<Rightarrow>
          (case outData ''status'' of
             None \<Rightarrow> Some (Inl KeyError)
           | Some st \<Rightarrow>
               if st \<noteq> JString ''EXECUTING'' then Some (Inr (outData, k + 1))
               else ticIdSearch_loop env (k + 1)))"

text \<open>
  \<^verbatim>\<open>
  def ticIdSearch(tic):
      while True:
          ...
      print(outData)
      df = pd.json_normalize(outData['data'])
      return df.iloc[0]
  \<close>
  The text that \<^verbatim>\<open>print(outData)\<close> writes is not modelled; the console records that a line
  was written.
\<close>

definition ticIdSearch :: "int \<Rightarrow> (nat \<Rightarrow> reply) \<Rightarrow> world \<Rightarrow> ((error + tic_row) \<times> world) option" where
  "ticIdSearch tic env w =
     (case ticIdSearch_loop env 0 of
        None \<Rightarrow> None
      | Some (Inl e) \<Rightarrow> Some (Inl e, w)
      | Some (Inr (outData, n)) \<Rightarrow>
          (let w1 = print ''<outData>'' w in
           case outData ''data'' of
             None \<Rightarrow> Some (Inl KeyError, w1)
           | Some (JRows []) \<Rightarrow> Some (Inl IndexError, w1)
           | Some (JRows (r # rs)) \<Rightarrow> Some (Inr r, w1)
           | Some other \<Rightarrow> Some (Inl ValueError, w1)))"

text \<open>
  The loops of \<^verbatim>\<open>SectFromCoords\<close>:
  \<^verbatim>\<open>
  findAny=False
  sects=[]
  for idxSec,curSec in enumerate(scinfo.sectors):
      starInCam, starCcdNum, starFitsXs, starFitsYs, starCcdXs, starCcdYs = scinfo.fpgObjs[idxSec].radec2pix(\
                 np.array([coord.ra.deg]), np.array([coord.dec.deg]))
      for jj, cam in enumerate(starInCam):
          # SPOC calibrated FFIs have 44 collateral pixels in x and are 1 based
          xUse = starCcdXs[jj] + 45.0
          yUse = starCcdYs[jj] + 1.0
          xMin = 44.0
          ymaxCoord = 2049
          xmaxCoord = 2093
          if xUse>xMin and yUse>0 and xUse<xmaxCoord and yUse<ymaxCoord:
              findAny=True
              sects+=[curSec]
  \<close>
\<close>

definition hit_body :: "int \<Rightarrow> pix_result \<Rightarrow> nat \<Rightarrow> bool \<times> int list \<Rightarrow> error + bool \<times> int list" where
  "hit_body curSec r jj st =
     (case np_get (ccdxpos r) (int jj) of Inl e \<Rightarrow> Inl e | Inr starCcdX \<Rightarrow>
      case np_get (ccdypos r) (int jj) of Inl e \<Rightarrow> Inl e | Inr starCcdY \<Rightarrow>
        let xUse = starCcdX + 45;
            yUse = starCcdY + 1;
            xMin = 44;
            ymaxCoord = 2049;
            xmaxCoord = 2093
        in if xUse > xMin \<and> yUse > 0 \<and> xUse < xmaxCoord \<and> yUse < ymaxCoord
           then Inr (True, snd st @ [curSec])
           else Inr st)"

definition sector_body ::
  "pointing_data \<Rightarrow> real \<Rightarrow> real \<Rightarrow> nat \<Rightarrow> bool \<times> int list \<Rightarrow> world \<Rightarrow> (error + bool \<times> int list) \<times> world" where
  "sector_body scinfo ra dec idxSec st w =
     (let curSec = sectors scinfo ! idxSec in
      case np_get (fpgObjs scinfo) (int idxSec) of Inl e \<Rightarrow> (Inl e, w) | Inr self \<Rightarrow>
      case radec2pix self [ra] [dec] w of
        (Inl e, w') \<Rightarrow> (Inl e, w')
      | (Inr r, w') \<Rightarrow> (foldE (hit_body curSec r) [0..<length (inCamera r)] st, w'))"

definition SectFromCoords_sectors ::
  "pointing_data \<Rightarrow> real \<Rightarrow> real \<Rightarrow> world \<Rightarrow> (error + bool \<times> int list) \<times> world" where
  "SectFromCoords_sectors scinfo ra dec w =
     foldW (sector_body scinfo ra dec) [0..<length (sectors scinfo)] (False, []) w"

text \<open>
  \<^verbatim>\<open>
  def SectFromCoords(coord=None,tic=None):
      assert not (coord is None and tic is None)
      scinfo = TESS_Spacecraft_Pointing_Data()
      if tic is None:
          ticdat = ticConeSearch(coord)
          tic = ticdat['ID']
      else:
          ticdat = ticIdSearch(tic)
          if coord is None:
              coord=SkyCoord(ticdat['ra']*u.deg,ticdat['dec']*u.deg)
      ...
      return tic, ticdat, sects
  \<close>
  The result of the call \<^verbatim>\<open>ticConeSearch(coord)\<close> is a parameter (\<open>cone\<close>: the row or the
  exception). The module binds no name \<^verbatim>\<open>u\<close>, so the last assignment raises NameError.
\<close>

definition SectFromCoords_finish ::
  "pointing_data \<Rightarrow> real \<times> real \<Rightarrow> int \<Rightarrow> tic_row \<Rightarrow> world \<Rightarrow> (error + int \<times> tic_row \<times> int list) \<times> world" where
  "SectFromCoords_finish scinfo coord tic ticdat w =
     (case SectFromCoords_sectors scinfo (fst coord) (snd coord) w of
        (Inl e, w') \<Rightarrow> (Inl e, w')
      | (Inr st, w') \<Rightarrow> (Inr (tic, ticdat, snd st), w'))"

definition SectFromCoords ::
  "(real \<times> real) option \<Rightarrow> int option \<Rightarrow> error + tic_row \<Rightarrow> (nat \<Rightarrow> reply) \<Rightarrow> world \<Rightarrow>
   ((error + int \<times> tic_row \<times> int list) \<times> world) option" where
  "SectFromCoords coord tic cone env w =
     (if coord = None \<and> tic = None then Some (Inl AssertionError, w)
      else
        (case TESS_Spacecraft_Pointing_Data None None w of
           (Inl e, w1) \<Rightarrow> Some (Inl e, w1)
         | (Inr scinfo, w1) \<Rightarrow>
             (case tic of
                None \<Rightarrow>
                  (case cone of
                     Inl e \<Rightarrow> Some (Inl e, w1)
                   | Inr ticdat \<Rightarrow>
                       (case coord of
                          None \<Rightarrow> Some (Inl AssertionError, w1)
                        | Some c \<Rightarrow> Some (SectFromCoords_finish scinfo c (tic_ID ticdat) ticdat w1)))
              | Some t \<Rightarrow>
                  (case ticIdSearch t env w1 of
                     None \<Rightarrow> None
                   | Some (Inl e, w2) \<Rightarrow> Some (Inl e, w2)
                   | Some (Inr ticdat, w2) \<Rightarrow>
                       (case coord of
                          None \<Rightarrow> Some (Inl NameError, w2)
                        | Some c \<Rightarrow> Some (SectFromCoords_finish scinfo c t ticdat w2))))))"


text \<open>The replies that keep the polling loop going, and the replies that end it.\<close>

definition executing :: "reply \<Rightarrow> bool" where
  "executing r =
     (case r of Raises e \<Rightarrow> False | Reply d \<Rightarrow> d ''status'' = Some (JString ''EXECUTING''))"

definition finished :: "reply \<Rightarrow> bool" where
  "finished r =
     (case r of
        Raises e \<Rightarrow> False
      | Reply d \<Rightarrow> (case d ''status'' of None \<Rightarrow> False | Some st \<Rightarrow> st \<noteq> JString ''EXECUTING''))"

section \<open>Concrete inputs\<close>

text \<open>A file system with no parameter file, and the geometry object that holds the
  values of the four hard-coded tables and no pointing.\<close>

definition no_files :: "string \<Rightarrow> file_status" where
  "no_files path = NotAFile"

definition hard_coded_fpg :: fpg where
  "hard_coded_fpg =
     \<lparr>eulcam =
       [(0.101588, - 36.022035, 90.048315),
        (- 0.179412, - 12.017260, 90.046500),
        (0.066596, 12.007750, - 89.889085),
        (0.030756, 35.978116, - 89.976802)],
      optcon =
       [[145.948116, 1.00000140, 0.24779006, - 0.22681254, 10.78243356, - 34.97817276],
        [145.989933, 1.00000140, 0.24069345, 0.15391120, 4.05433503, 3.43136895],
        [146.006602, 1.00000140, 0.23452229, 0.33552009, 1.92009863, 12.48880182],
        [146.039793, 1.00000140, 0.23920416, 0.13349450, 4.77768896, - 1.75114744]],
      ccdxy0 =
       [[(31.573417, 31.551637), (- 0.906060, 31.536148), (- 31.652818, - 31.438350), (0.833161, - 31.458180)],
        [(31.653635, 31.470291), (- 0.827405, 31.491388), (- 31.543794, - 31.550699), (0.922834, - 31.557268)],
        [(31.615486, 31.413644), (- 0.832993, 31.426621), (- 31.548296, - 31.606976), (0.896018, - 31.569542)],
        [(31.575820, 31.316510), (- 0.890877, 31.363511), (- 31.630470, - 31.716942), (0.824159, - 31.728751)]],
      pixsz =
       [[(0.015000, 0.015000), (0.015000, 0.015000), (0.015000, 0.015000), (0.015000, 0.015000)],
        [(0.015000, 0.015000), (0.015000, 0.015000), (0.015000, 0.015000), (0.015000, 0.015000)],
        [(0.015000, 0.015000), (0.015000, 0.015000), (0.015000, 0.015000), (0.015000, 0.015000)],
        [(0.015000, 0.015000), (0.015000, 0.015000), (0.015000, 0.015000), (0.015000, 0.015000)]],
      ccdang =
       [[179.980833, 180.000000, - 0.024851, 0.001488],
        [180.010890, 180.000000, - 0.006624, - 0.015464],
        [179.993948, 180.000000, 0.000298, - 0.006464],
        [179.968217, 180.000000, - 0.024359, - 0.024280]],
      ccdtilt =
       [[(0.000000, 0.000000), (0.000000, 0.000000), (0.000000, 0.000000), (0.000000, 0.000000)],
        [(0.000000, 0.000000), (0.000000, 0.000000), (0.000000, 0.000000), (0.000000, 0.000000)],
        [(0.000000, 0.000000), (0.000000, 0.000000), (0.000000, 0.000000), (0.000000, 0.000000)],
        [(0.000000, 0.000000), (0.000000, 0.000000), (0.000000, 0.000000), (0.000000, 0.000000)]],
      asymang = [0.00000000, 0.00000000, 0.00000000, 0.00000000],
      asymfac = [1.00000000, 1.00000000, 1.00000000, 1.00000000],
      rmat1 = zeros33,
      rmat4 = [zeros33, zeros33, zeros33, zeros33],
      havePointing = False\<rparr>"

text \<open>An archive that answers \<^verbatim>\<open>EXECUTING\<close> twice and \<^verbatim>\<open>COMPLETE\<close> from then on, and an
  archive that answers \<^verbatim>\<open>EXECUTING\<close> for ever.\<close>

definition reply_executing :: reply where
  "reply_executing = Reply [''status'' \<mapsto> JString ''EXECUTING'']"

definition reply_complete :: reply where
  "reply_complete =
     Reply [''status'' \<mapsto> JString ''COMPLETE'',
            ''data'' \<mapsto> JRows [\<lparr>tic_ID = 261136679, tic_ra = 84.291, tic_dec = - 80.469\<rparr>]]"

definition archive_third :: "nat \<Rightarrow> reply" where
  "archive_third k = (if k < 2 then reply_executing else reply_complete)"

definition archive_busy :: "nat \<Rightarrow> reply" where
  "archive_busy k = reply_executing"

text \<open>Two constructions in one program run: a file \<^verbatim>\<open>fpg_cam2.txt\<close> holds the rows of
  the table of the second camera; \<open>world1\<close> is the state after \<^verbatim>\<open>Levine_FPG()\<close> in the
  freshly loaded module, \<open>world2\<close> the state after a second construction that names the
  file for all four cameras.\<close>

definition example_files :: "string \<Rightarrow> file_status" where
  "example_files path = (if path = ''fpg_cam2.txt'' then Parsed parm_dict_cam1 else NotAFile)"

definition example_file_list :: "string list" where
  "example_file_list = [''fpg_cam2.txt'', ''fpg_cam2.txt'', ''fpg_cam2.txt'', ''fpg_cam2.txt'']"

definition world0 :: world where
  "world0 = module_loaded example_files"

definition world1 :: world where
  "world1 = snd (Levine_FPG_new None None world0)"

definition world2 :: world where
  "world2 = snd (Levine_FPG_new None (Some example_file_list) world1)"

text \<open>The state after \<^verbatim>\<open>Levine_FPG()\<close> with no parameter file.\<close>

definition world_default :: world where
  "world_default = snd (Levine_FPG_new None None (module_loaded no_files))"






section \<open>Notions used in the properties\<close>

text \<open>The file the constructor reads for a camera, the dictionary that
  \<open>read_levine_fpg_file\<close> stores for it, the file lists long enough for four cameras,
  the keys the second loop of \<open>read_all_levine_fpg_files\<close> looks up, and the dictionaries
  that have them all.\<close>

definition file_of :: "string list option \<Rightarrow> nat \<Rightarrow> string" where
  "file_of fpg_file_list icam =
     (case fpg_file_list of None \<Rightarrow> default_fpg_file_list ! icam | Some fl \<Rightarrow> fl ! icam)"

definition loaded_dict :: "(string \<Rightarrow> file_status) \<Rightarrow> string list option \<Rightarrow> nat \<Rightarrow> parm_dict" where
  "loaded_dict fs fpg_file_list icam =
     (case fs (file_of fpg_file_list icam) of
        Parsed rows \<Rightarrow> dict_of_rows rows
      | Unreadable \<Rightarrow> hard_coded_parms icam
      | NotAFile \<Rightarrow> hard_coded_parms icam)"

definition fl_ok :: "string list option \<Rightarrow> bool" where
  "fl_ok fpg_file_list = (case fpg_file_list of None \<Rightarrow> True | Some fl \<Rightarrow> 4 \<le> length fl)"

definition camera_keys :: "string list" where
  "camera_keys = map fst (cam_assignments 0)"

definition keys_ok :: "parm_dict \<Rightarrow> bool" where
  "keys_ok pd = list_all (\<lambda>k. pd k \<noteq> None) camera_keys"

text \<open>Relations between the state before and after a statement: the instances other
  than \<open>self\<close> are the same; and, moreover, the class-level list and the files are.\<close>

definition same_others :: "nat \<Rightarrow> world \<Rightarrow> world \<Rightarrow> bool" where
  "same_others self w w' =
     (length (objs w') = length (objs w) \<and> (\<forall>a. a \<noteq> self \<longrightarrow> objs w' ! a = objs w ! a))"

definition attr_step :: "nat \<Rightarrow> world \<Rightarrow> world \<Rightarrow> bool" where
  "attr_step self w w' =
     (same_others self w w' \<and> parm_dict_list w' = parm_dict_list w \<and> files w' = files w)"



section \<open>Properties\<close>

lemma py_index_in_range: "0 \<le> i \<Longrightarrow> i < int n \<Longrightarrow> py_index n i = Some (nat i)"
  by (simp add: py_index_def)

lemma np_get_in_range: "0 \<le> i \<Longrightarrow> i < int (length xs) \<Longrightarrow> np_get xs i = Inr (xs ! nat i)"
  by (simp add: np_get_def py_index_in_range)

subsection \<open>rotm1\<close>

lemma rotm1_axis0: "rotm1 0 a = Inr [[1, 0, 0], [0, cos a, sin a], [0, - sin a, cos a]]"
  by (simp add: rotm1_def py_index_def mat_set_def zeros33_def Let_def)

lemma rotm1_axis1: "rotm1 1 a = Inr [[cos a, 0, - sin a], [0, 1, 0], [sin a, 0, cos a]]"
  by (simp add: rotm1_def py_index_def mat_set_def zeros33_def Let_def)

lemma rotm1_axis2: "rotm1 2 a = Inr [[cos a, sin a, 0], [- sin a, cos a, 0], [0, 0, 1]]"
  by (simp add: rotm1_def py_index_def mat_set_def zeros33_def Let_def)

text \<open>
  Claim C4, as the spec words it, fails for the axis index 1. There the off-axis
  indices in cyclic order are 2 and 0, so \<open>+sin\<close> is stored at row 2, column 0 (below
  the diagonal) and \<open>-sin\<close> at row 0, column 2 (above the diagonal): at the angle
  \<open>\<pi>/2\<close> the entry above the diagonal is \<open>-1\<close>.
\<close>

theorem rotm1_signs_counterexample:
  "rotm1 1 (pi / 2) = Inr [[0, 0, - 1], [0, 1, 0], [1, 0, 0]] \<and>
   \<not> rotm1_spec_signs 1 (pi / 2) [[0, 0, - 1], [0, 1, 0], [1, 0, 0]]"
  by (simp add: rotm1_axis1 rotm1_spec_signs_def)

text \<open>
  Claim C4, amended: for every axis index 0, 1, 2 and every angle, \<open>rotm1\<close> returns the
  matrix with 1 at \<open>(ax, ax)\<close>, \<open>cos\<close> at the two other diagonal entries, \<open>+sin\<close> at
  \<open>(n2, n3)\<close> and \<open>-sin\<close> at \<open>(n3, n2)\<close>, where \<open>n2 = (ax + 1) mod 3\<close> and
  \<open>n3 = (ax + 2) mod 3\<close>, and 0 elsewhere. So \<open>+sin\<close> is above the diagonal for the axes
  0 and 2, and below the diagonal for the axis 1.
\<close>

theorem rotm1_entries:
  "rotm1 0 a = Inr [[1, 0, 0], [0, cos a, sin a], [0, - sin a, cos a]] \<and>
   rotm1 1 a = Inr [[cos a, 0, - sin a], [0, 1, 0], [sin a, 0, cos a]] \<and>
   rotm1 2 a = Inr [[cos a, sin a, 0], [- sin a, cos a, 0], [0, 0, 1]]"
  by (simp add: rotm1_axis0 rotm1_axis1 rotm1_axis2)

subsection \<open>mm\_to\_pix\<close>

lemma ccd_pixel_ok:
  assumes "ccd_tables_ok g" "0 \<le> icam" "icam < 4" "0 \<le> iccd" "iccd < 4"
  shows "ccd_pixel g icam iccd xy =
    Inr (spec_ccd_local (ccdxy0 g ! nat icam ! nat iccd) (ccdang g ! nat icam ! nat iccd)
           (pixsz g ! nat icam ! nat iccd) xy)"
proof -
  have n: "nat icam < 4" using assms by simp
  have rows: "length (ccdxy0 g ! nat icam) = 4" "length (ccdang g ! nat icam) = 4"
    "length (pixsz g ! nat icam) = 4"
    using assms(1) n by (simp_all add: ccd_tables_ok_def list_all_length)
  show ?thesis
    using assms rows
    by (simp add: ccd_pixel_def np_get_in_range ccd_tables_ok_def spec_ccd_local_def
        xyrotate_def deg2rad_def Let_def algebra_simps)
qed

lemma mm_to_pix_ok:
  assumes "ccd_tables_ok g" "0 \<le> icam" "icam < 4"
  shows "mm_to_pix g icam xy =
    (let iccd = spec_quadrant_ccd xy;
         c = spec_ccd_local (ccdxy0 g ! nat icam ! nat iccd) (ccdang g ! nat icam ! nat iccd)
           (pixsz g ! nat icam ! nat iccd) xy
     in Inr (iccd, c, spec_fits iccd c))"
  using assms
  by (simp add: mm_to_pix_def ccd_pixel_ok spec_quadrant_ccd_def spec_fits_def Let_def
      CCDWD_T_def CCDHT_T_def ROWA_def ROWB_def COLDK_T_def)


text \<open>
  Claim C1: for a camera index 0..3 and a focal-plane point, \<open>mm_to_pix\<close> selects the CCD
  by the quadrant of the point ((+,+) 0, (-,+) 1, (-,-) 2, (+,-) 3), computes the
  CCD-local pixel as the point translated by that CCD's origin, rotated by its angle,
  divided by the pixel pitch and offset by -0.5, and computes the FITS pixel by the
  table of the spec with the constants 2048, 2058, 44, 44, 20. The tables have the
  constructor's shapes and no pixel pitch is zero.
\<close>

theorem mm_to_pix_spec:
  assumes "ccd_tables_ok g" "0 \<le> icam" "icam < 4"
  shows "mm_to_pix g icam xy =
    Inr (spec_quadrant_ccd xy,
         spec_ccd_local (ccdxy0 g ! nat icam ! nat (spec_quadrant_ccd xy))
           (ccdang g ! nat icam ! nat (spec_quadrant_ccd xy))
           (pixsz g ! nat icam ! nat (spec_quadrant_ccd xy)) xy,
         spec_fits (spec_quadrant_ccd xy)
           (spec_ccd_local (ccdxy0 g ! nat icam ! nat (spec_quadrant_ccd xy))
              (ccdang g ! nat icam ! nat (spec_quadrant_ccd xy))
              (pixsz g ! nat icam ! nat (spec_quadrant_ccd xy)) xy))"
  using mm_to_pix_ok [OF assms, of xy] by (simp add: Let_def)

lemma hard_coded_tables_ok: "ccd_tables_ok hard_coded_fpg"
  by (simp add: ccd_tables_ok_def hard_coded_fpg_def)

theorem mm_to_pix_spec_witness:
  "ccd_tables_ok hard_coded_fpg \<and>
   mm_to_pix hard_coded_fpg 0 (- 1, 1) =
     Inr (1, (2161 / 375, 1272027 / 625), (781964 / 375, 1324848 / 625))"
  using mm_to_pix_spec [OF hard_coded_tables_ok, of 0 "(- 1, 1)"] hard_coded_tables_ok
  by (simp add: spec_quadrant_ccd_def spec_ccd_local_def spec_fits_def hard_coded_fpg_def)

text \<open>
  Claim C9: the sign tests of \<open>mm_to_pix\<close> are not strict. A point with \<open>x = 0\<close> goes to
  CCD 0 when \<open>y \<ge> 0\<close> and to CCD 3 when \<open>y < 0\<close>; a point with \<open>y = 0\<close> goes to CCD 0 when
  \<open>x \<ge> 0\<close> and to CCD 1 when \<open>x < 0\<close>.
\<close>

theorem mm_to_pix_zero_axes:
  assumes "ccd_tables_ok g" "0 \<le> icam" "icam < 4"
  shows "map_sum id fst (mm_to_pix g icam (0, y)) = Inr (if 0 \<le> y then 0 else 3) \<and>
         map_sum id fst (mm_to_pix g icam (x, 0)) = Inr (if 0 \<le> x then 0 else 1)"
  using mm_to_pix_ok [OF assms, of "(0, y)"] mm_to_pix_ok [OF assms, of "(x, 0)"]
  by (simp add: Let_def spec_quadrant_ccd_def)

theorem mm_to_pix_zero_axes_witness:
  "map_sum id fst (mm_to_pix hard_coded_fpg 2 (0, - 5)) = Inr 3 \<and>
   map_sum id fst (mm_to_pix hard_coded_fpg 2 (0, 0)) = Inr 0 \<and>
   map_sum id fst (mm_to_pix hard_coded_fpg 2 (- 5, 0)) = Inr 1"
  using mm_to_pix_zero_axes [OF hard_coded_tables_ok, of 2 "- 5" 0]
    mm_to_pix_zero_axes [OF hard_coded_tables_ok, of 2 0 "- 5"]
  by simp

subsection \<open>sphereToCart and cartToSphere\<close>

lemma cos_sin_sq: "(cos r * c)\<^sup>2 + (sin r * c)\<^sup>2 = (c::real)\<^sup>2"
proof -
  have "(cos r * c)\<^sup>2 + (sin r * c)\<^sup>2 = c\<^sup>2 * ((cos r)\<^sup>2 + (sin r)\<^sup>2)"
    by (simp only: power_mult_distrib distrib_left mult.commute)
  then show ?thesis by simp
qed

lemma sgn_cart:
  assumes "0 < cos d"
  shows "sgn (Complex (cos r * cos d) (sin r * cos d)) = cis r"
proof -
  have n: "cmod (Complex (cos r * cos d) (sin r * cos d)) = cos d"
    using assms by (simp add: cmod_def cos_sin_sq)
  show ?thesis using assms
    by (simp add: sgn_eq complex_eq_iff n)
qed

lemma arctan2_lower:
  assumes "0 < cos d" "0 \<le> r" "r \<le> pi"
  shows "np_mod (np_arctan2 (sin r * cos d) (cos r * cos d)) (2 * pi) = r"
proof -
  have "Arg (Complex (cos r * cos d) (sin r * cos d)) = r"
    using assms pi_gt_zero by (intro cis_Arg_unique sgn_cart) linarith+
  moreover have "r < 2 * pi" using assms pi_gt_zero by linarith
  then have "\<lfloor>r / (2 * pi)\<rfloor> = 0" using assms by (simp add: floor_eq_iff)
  ultimately show ?thesis by (simp add: np_mod_def np_arctan2_def)
qed

lemma arctan2_upper:
  assumes "0 < cos d" "pi < r" "r < 2 * pi"
  shows "np_mod (np_arctan2 (sin r * cos d) (cos r * cos d)) (2 * pi) = r"
proof -
  have "cis (r - 2 * pi) = cis r"
    by (simp add: complex_eq_iff cos_diff sin_diff)
  then have "sgn (Complex (cos r * cos d) (sin r * cos d)) = cis (r - 2 * pi)"
    using sgn_cart [OF assms(1), of r] by simp
  then have "Arg (Complex (cos r * cos d) (sin r * cos d)) = r - 2 * pi"
    using assms by (intro cis_Arg_unique) auto
  moreover have "\<lfloor>(r - 2 * pi) / (2 * pi)\<rfloor> = - 1" using assms by (simp add: floor_eq_iff field_simps)
  ultimately show ?thesis by (simp add: np_mod_def np_arctan2_def)
qed

lemma norm_cart: "cos r * cos d * (cos r * cos d) + sin r * cos d * (sin r * cos d) + sin d * sin d = (1::real)"
proof -
  have "cos r * cos d * (cos r * cos d) + sin r * cos d * (sin r * cos d) + sin d * sin d
     = ((cos r * cos d)\<^sup>2 + (sin r * cos d)\<^sup>2) + (sin d)\<^sup>2"
    by (simp add: power2_eq_square)
  also have "\<dots> = 1" by (simp only: cos_sin_sq) simp
  finally show ?thesis .
qed

lemma round_trip_radians:
  assumes "0 \<le> ra" "ra < 360" "- 90 < dec" "dec < 90"
  shows "cartToSphere (sphereToCart ra dec) = (deg2rad * ra, deg2rad * dec)"
proof -
  define r where "r = deg2rad * ra"
  define d where "d = deg2rad * dec"
  have "0 < pi / 180" by simp
  have r: "0 \<le> r" "r < 2 * pi" using assms by (simp_all add: r_def deg2rad_def field_simps)
  have "- (pi / 2) = (pi / 180) * (- 90)" "pi / 2 = (pi / 180) * 90" by simp_all
  then have d: "- (pi / 2) < d" "d < pi / 2" using assms unfolding d_def deg2rad_def
    by (simp_all only: mult_less_cancel_left_pos [OF \<open>0 < pi / 180\<close>])
  have cd: "0 < cos d" using d by (simp add: cos_gt_zero_pi)
  have nz: "cos r * cos d \<noteq> 0 \<or> sin r * cos d \<noteq> 0"
    using cd sin_zero_abs_cos_one [of r] by (auto simp: abs_if split: if_splits)
  have at: "np_mod (np_arctan2 (sin r * cos d) (cos r * cos d)) (2 * pi) = r"
    using arctan2_lower [OF cd] arctan2_upper [OF cd] r by (cases "r \<le> pi") auto
  have as: "arcsin (sin d) = d" using d by (simp add: arcsin_sin)
  show ?thesis
    using nz at as
    by (simp add: cartToSphere_def sphereToCart_def Let_def norm_cart r_def [symmetric] d_def [symmetric])
qed


text \<open>
  Claim C5, as stated, fails: \<open>sphereToCart\<close> takes degrees and \<open>cartToSphere\<close> returns
  radians. The pair (180, 0) comes back as \<open>(\<pi>, 0)\<close>.
\<close>

theorem round_trip_counterexample: "\<not> spec_round_trip 180 0"
proof -
  have "cartToSphere (sphereToCart 180 0) = (deg2rad * 180, deg2rad * 0)"
    by (rule round_trip_radians) simp_all
  moreover have "pi < 180" using pi_less_4 by linarith
  ultimately show ?thesis by (simp add: spec_round_trip_def deg2rad_def)
qed

text \<open>
  Claim C5, amended: for \<open>ra\<close> in [0, 360) and \<open>dec\<close> in (-90, 90) degrees,
  \<open>cartToSphere (sphereToCart ra dec)\<close> is the pair converted to radians,
  \<open>(ra \<cdot> \<pi>/180, dec \<cdot> \<pi>/180)\<close>; dividing both components by \<open>deg2rad\<close>, as \<open>radec2pix\<close>
  does, gives back \<open>(ra, dec)\<close>.
\<close>

theorem round_trip_degrees:
  assumes "0 \<le> ra" "ra < 360" "- 90 < dec" "dec < 90"
  shows "cartToSphere (sphereToCart ra dec) = (deg2rad * ra, deg2rad * dec) \<and>
         fst (cartToSphere (sphereToCart ra dec)) / deg2rad = ra \<and>
         snd (cartToSphere (sphereToCart ra dec)) / deg2rad = dec"
  using round_trip_radians [OF assms] by (simp add: deg2rad_def)

theorem round_trip_degrees_witness:
  "cartToSphere (sphereToCart 270 (- 45)) = (deg2rad * 270, deg2rad * (- 45)) \<and>
   fst (cartToSphere (sphereToCart 270 (- 45))) / deg2rad = 270 \<and>
   snd (cartToSphere (sphereToCart 270 (- 45))) / deg2rad = - 45"
  using round_trip_degrees [of 270 "- 45"] by (simp add: deg2rad_def)

subsection \<open>get\_radec\_from\_posangsep\<close>






subsection \<open>TESS\_Spacecraft\_Pointing\_Data\<close>

lemma where_none: "t < 1 \<or> 39 < t \<Longrightarrow> np_where_eq class_sectors t = []"
  by (auto simp: np_where_eq_def class_sectors_def filter_empty_conv)


text \<open>
  Claim C10: with a \<open>trySector\<close> outside 1..39 the constructor returns (it does not
  raise) a catalog whose sector, ra, dec and roll arrays are empty and which holds no
  geometry object; no object is created.
\<close>

theorem pointing_unknown_sector:
  assumes "t < 1 \<or> 39 < t"
  shows "TESS_Spacecraft_Pointing_Data (Some t) fl w =
    (Inr \<lparr>sectors = [], ras = [], decs = [], rolls = [], camRa = [[], [], [], []],
          camDec = [[], [], [], []], fpgObjs = []\<rparr>, w)"
  using where_none [OF assms]
  by (simp add: TESS_Spacecraft_Pointing_Data_def)


theorem pointing_unknown_sector_witness:
  "TESS_Spacecraft_Pointing_Data (Some 40) None (module_loaded no_files) =
    (Inr \<lparr>sectors = [], ras = [], decs = [], rolls = [], camRa = [[], [], [], []],
          camDec = [[], [], [], []], fpgObjs = []\<rparr>, module_loaded no_files) \<and>
   TESS_Spacecraft_Pointing_Data (Some 0) None (module_loaded no_files) =
    (Inr \<lparr>sectors = [], ras = [], decs = [], rolls = [], camRa = [[], [], [], []],
          camDec = [[], [], [], []], fpgObjs = []\<rparr>, module_loaded no_files)"
  using pointing_unknown_sector [of 40 None "module_loaded no_files"]
    pointing_unknown_sector [of 0 None "module_loaded no_files"]
  by simp

subsection \<open>The polling loop of ticIdSearch\<close>

lemma loop_step_executing:
  "executing (env k) \<Longrightarrow> ticIdSearch_loop env k = ticIdSearch_loop env (k + 1)"
  by (subst ticIdSearch_loop.simps) (auto simp: executing_def split: reply.splits)

lemma loop_step_finished:
  "finished (env k) \<Longrightarrow> env k = Reply d \<Longrightarrow> ticIdSearch_loop env k = Some (Inr (d, k + 1))"
  by (subst ticIdSearch_loop.simps) (auto simp: finished_def split: option.splits)

lemma loop_exits:
  "(\<forall>i<n. executing (env (k + i))) \<Longrightarrow> finished (env (k + n)) \<Longrightarrow> env (k + n) = Reply d \<Longrightarrow>
   ticIdSearch_loop env k = Some (Inr (d, k + n + 1))"
proof (induction n arbitrary: k)
  case 0
  then show ?case using loop_step_finished [of env k d] by simp
next
  case (Suc n)
  have "executing (env k)" using Suc.prems(1) by (metis add.right_neutral zero_less_Suc)
  then have "ticIdSearch_loop env k = ticIdSearch_loop env (Suc k)"
    using loop_step_executing by simp
  moreover have "ticIdSearch_loop env (Suc k) = Some (Inr (d, Suc k + n + 1))"
  proof (rule Suc.IH)
    show "\<forall>i<n. executing (env (Suc k + i))" using Suc.prems(1)
      by (metis Suc_less_eq add_Suc_shift)
    show "finished (env (Suc k + n))" using Suc.prems(2) by simp
    show "env (Suc k + n) = Reply d" using Suc.prems(3) by simp
  qed
  ultimately show ?case by simp
qed

lemma loop_forever:
  assumes "\<forall>i. executing (env i)"
  shows "ticIdSearch_loop env k = None"
proof (rule ccontr)
  assume "ticIdSearch_loop env k \<noteq> None"
  then obtain y where y: "ticIdSearch_loop env k = Some y" by auto
  have "\<not> (\<forall>i. executing (env i))"
  proof (rule ticIdSearch_loop.raw_induct [where P = "\<lambda>e k y. \<not> (\<forall>i. executing (e i))", OF _ y])
    fix loop :: "(nat \<Rightarrow> reply) \<Rightarrow> nat \<Rightarrow> (error + out_data \<times> nat) option"
    fix e k' y'
    assume ih: "\<And>e k y. loop e k = Some y \<Longrightarrow> \<not> (\<forall>i. executing (e i))"
    assume st: "(case e k' of Raises x \<Rightarrow> Some (Inl x)
      | Reply outData \<Rightarrow>
          case outData ''status'' of None \<Rightarrow> Some (Inl KeyError)
          | Some st \<Rightarrow>
              if st \<noteq> JString ''EXECUTING'' then Some (Inr (outData, k' + 1))
              else loop e (k' + 1)) = Some y'"
    show "\<not> (\<forall>i. executing (e i))"
    proof
      assume a: "\<forall>i. executing (e i)"
      then have "executing (e k')" by simp
      then have "loop e (k' + 1) = Some y'" using st
        by (auto simp: executing_def split: reply.splits option.splits if_splits)
      then show False using ih a by blast
    qed
  qed
  then show False using assms by blast
qed

lemma loop_exit_only:
  assumes y: "ticIdSearch_loop env k = Some y"
  shows "\<forall>d m. y = Inr (d, m) \<longrightarrow>
     k < m \<and> env (m - 1) = Reply d \<and> finished (env (m - 1)) \<and> (\<forall>i. k \<le> i \<and> i < m - 1 \<longrightarrow> executing (env i))"
proof (rule ticIdSearch_loop.raw_induct [where P = "\<lambda>e k y. \<forall>d m. y = Inr (d, m) \<longrightarrow>
     k < m \<and> e (m - 1) = Reply d \<and> finished (e (m - 1)) \<and> (\<forall>i. k \<le> i \<and> i < m - 1 \<longrightarrow> executing (e i))", OF _ y])
  fix loop :: "(nat \<Rightarrow> reply) \<Rightarrow> nat \<Rightarrow> (error + out_data \<times> nat) option"
  fix e k' y'
  assume ih: "\<And>e k y. loop e k = Some y \<Longrightarrow> \<forall>d m. y = Inr (d, m) \<longrightarrow>
     k < m \<and> e (m - 1) = Reply d \<and> finished (e (m - 1)) \<and> (\<forall>i. k \<le> i \<and> i < m - 1 \<longrightarrow> executing (e i))"
  assume st: "(case e k' of Raises x \<Rightarrow> Some (Inl x)
      | Reply outData \<Rightarrow>
          case outData ''status'' of None \<Rightarrow> Some (Inl KeyError)
          | Some st \<Rightarrow>
              if st \<noteq> JString ''EXECUTING'' then Some (Inr (outData, k' + 1))
              else loop e (k' + 1)) = Some y'"
  show "\<forall>d m. y' = Inr (d, m) \<longrightarrow>
     k' < m \<and> e (m - 1) = Reply d \<and> finished (e (m - 1)) \<and> (\<forall>i. k' \<le> i \<and> i < m - 1 \<longrightarrow> executing (e i))"
  proof (cases "executing (e k')")
    case True
    then have "loop e (k' + 1) = Some y'" using st
      by (auto simp: executing_def split: reply.splits option.splits if_splits)
    then have h: "\<forall>d m. y' = Inr (d, m) \<longrightarrow>
      k' + 1 < m \<and> e (m - 1) = Reply d \<and> finished (e (m - 1)) \<and> (\<forall>i. k' + 1 \<le> i \<and> i < m - 1 \<longrightarrow> executing (e i))"
      by (rule ih)
    show ?thesis
    proof (intro allI impI)
      fix d m assume "y' = Inr (d, m)"
      then have g: "k' + 1 < m" "e (m - 1) = Reply d" "finished (e (m - 1))"
        "\<forall>i. k' + 1 \<le> i \<and> i < m - 1 \<longrightarrow> executing (e i)" using h by blast+
      have "executing (e i)" if "k' \<le> i \<and> i < m - 1" for i
      proof (cases "i = k'")
        case True then show ?thesis using \<open>executing (e k')\<close> by simp
      next
        case False then show ?thesis using that g(4) by (simp add: le_neq_implies_less)
      qed
      then show "k' < m \<and> e (m - 1) = Reply d \<and> finished (e (m - 1)) \<and> (\<forall>i. k' \<le> i \<and> i < m - 1 \<longrightarrow> executing (e i))"
        using g by simp
    qed
  next
    case False
    then show ?thesis using st
      by (auto simp: executing_def finished_def split: reply.splits option.splits if_splits)
  qed
qed


text \<open>
  Claim C8: the loop of \<open>ticIdSearch\<close> ends exactly at the first reply whose status is
  not \<^verbatim>\<open>EXECUTING\<close>. If the replies 0..n-1 are \<^verbatim>\<open>EXECUTING\<close> and reply n is not, the loop
  returns reply n after n+1 round trips; a loop that returns has returned such a reply
  after only \<^verbatim>\<open>EXECUTING\<close> replies; and if every reply is \<^verbatim>\<open>EXECUTING\<close> the loop does not
  return.
\<close>

theorem ticIdSearch_loop_exit:
  "((\<forall>i<n. executing (env i)) \<and> finished (env n) \<and> env n = Reply d \<longrightarrow>
      ticIdSearch_loop env 0 = Some (Inr (d, n + 1))) \<and>
   (ticIdSearch_loop env 0 = Some (Inr (d, m)) \<longrightarrow>
      0 < m \<and> env (m - 1) = Reply d \<and> finished (env (m - 1)) \<and> (\<forall>i<m - 1. executing (env i))) \<and>
   ((\<forall>i. executing (env i)) \<longrightarrow> ticIdSearch_loop env 0 = None)"
proof (intro conjI impI)
  assume a: "(\<forall>i<n. executing (env i)) \<and> finished (env n) \<and> env n = Reply d"
  from a have a1: "\<forall>i<n. executing (env i)" and a2: "finished (env n)" and a3: "env n = Reply d"
    by blast+
  have 1: "\<forall>i<n. executing (env (0 + i))" using a1 by simp
  have 2: "finished (env (0 + n))" using a2 by simp
  have 3: "env (0 + n) = Reply d" using a3 by simp
  have "ticIdSearch_loop env 0 = Some (Inr (d, 0 + n + 1))"
    by (rule loop_exits [OF 1 2 3])
  then show "ticIdSearch_loop env 0 = Some (Inr (d, n + 1))" by simp
next
  assume a: "ticIdSearch_loop env 0 = Some (Inr (d, m))"
  show "0 < m" using loop_exit_only [OF a] by blast
  show "env (m - 1) = Reply d" using loop_exit_only [OF a] by blast
  show "finished (env (m - 1))" using loop_exit_only [OF a] by blast
  show "\<forall>i<m - 1. executing (env i)" using loop_exit_only [OF a] by blast
next
  assume "\<forall>i. executing (env i)"
  then show "ticIdSearch_loop env 0 = None" by (rule loop_forever)
qed

theorem ticIdSearch_loop_exit_witness:
  "ticIdSearch_loop archive_third 0 =
     Some (Inr ([''status'' \<mapsto> JString ''COMPLETE'',
                 ''data'' \<mapsto> JRows [\<lparr>tic_ID = 261136679, tic_ra = 84.291, tic_dec = - 80.469\<rparr>]], 3)) \<and>
   ticIdSearch_loop archive_busy 0 = None"
proof -
  let ?d = "[''status'' \<mapsto> JString ''COMPLETE'',
             ''data'' \<mapsto> JRows [\<lparr>tic_ID = 261136679, tic_ra = 84.291, tic_dec = - 80.469\<rparr>]]"
  have e: "\<forall>i<2. executing (archive_third i)"
    by (simp add: archive_third_def reply_executing_def executing_def)
  have f: "finished (archive_third 2)" "archive_third 2 = Reply ?d"
    by (simp_all add: archive_third_def reply_complete_def finished_def)
  have b: "\<forall>i. executing (archive_busy i)"
    by (simp add: archive_busy_def reply_executing_def executing_def)
  show ?thesis
    using ticIdSearch_loop_exit [of 2 archive_third ?d 0] ticIdSearch_loop_exit [of 0 archive_busy ?d 0] e f b
    by simp
qed

subsection \<open>Loops that thread the state\<close>

lemma forW_inv:
  assumes "P w" and "\<And>x w1. x \<in> set xs \<Longrightarrow> P w1 \<Longrightarrow> P (snd (body x w1))"
  shows "P (snd (forW body xs w))"
  using assms
proof (induction xs arbitrary: w)
  case Nil
  then show ?case by simp
next
  case (Cons x xs)
  obtain r w1 where b: "body x w = (r, w1)" by (cases "body x w")
  have 1: "P w1" using Cons.prems(2) [of x w] Cons.prems(1) b by simp
  show ?case
  proof (cases r)
    case (Inl e)
    then show ?thesis using b 1 by simp
  next
    case (Inr u)
    have "P (snd (forW body xs w1))" using Cons.IH [OF 1] Cons.prems(2) by simp
    then show ?thesis using b Inr by simp
  qed
qed

lemma bindW_inv:
  assumes "P (snd (m w))" and "\<And>x w1. P w1 \<Longrightarrow> P (snd (f x w1))"
  shows "P (snd (bindW m f w))"
proof -
  obtain r w1 where b: "m w = (r, w1)" by (cases "m w")
  show ?thesis
  proof (cases r)
    case (Inl e)
    then show ?thesis using b assms(1) by (simp add: bindW_def)
  next
    case (Inr x)
    then show ?thesis using b assms(1) assms(2) [of w1 x] by (simp add: bindW_def)
  qed
qed

lemma forW_ok:
  assumes "P w"
    and "\<And>x w1. x \<in> set xs \<Longrightarrow> P w1 \<Longrightarrow> fst (body x w1) = Inr () \<and> P (snd (body x w1))"
  shows "fst (forW body xs w) = Inr () \<and> P (snd (forW body xs w))"
  using assms
proof (induction xs arbitrary: w)
  case Nil
  then show ?case by simp
next
  case (Cons x xs)
  obtain r w1 where b: "body x w = (r, w1)" by (cases "body x w")
  have 1: "r = Inr ()" "P w1" using Cons.prems(2) [of x w] Cons.prems(1) b by simp_all
  have "fst (forW body xs w1) = Inr () \<and> P (snd (forW body xs w1))"
    using Cons.IH [OF 1(2)] Cons.prems(2) by simp
  then show ?case using b 1 by simp
qed

subsection \<open>Frame\<close>

lemma attr_step_refl: "attr_step self w w"
  by (simp add: attr_step_def same_others_def)

lemma attr_step_trans: "attr_step self a b \<Longrightarrow> attr_step self b c \<Longrightarrow> attr_step self a c"
  by (simp add: attr_step_def same_others_def)

lemma attr_step_self_upd: "attr_step self w (self_upd self f w)"
  by (simp add: attr_step_def same_others_def self_upd_def)

lemma attr_step_assign: "attr_step self w (snd (assign_parm self pd a w))"
  by (simp add: assign_parm_def attr_step_self_upd attr_step_refl split: option.splits)

lemma attr_step_parse: "attr_step self w (snd (parse_cam self icam w))"
proof (cases "icam < length (parm_dict_list w)")
  case True
  have "attr_step self w (snd (forW (assign_parm self (parm_dict_list w ! icam)) (cam_assignments icam) w))"
    by (rule forW_inv [where P = "attr_step self w"])
      (auto intro: attr_step_refl attr_step_trans attr_step_assign)
  then show ?thesis using True by (simp add: parse_cam_def)
next
  case False
  then show ?thesis by (simp add: parse_cam_def attr_step_refl)
qed

lemma attr_step_sky: "attr_step self w (snd (sky_to_sc_mat self sc w))"
  by (simp add: sky_to_sc_mat_def Let_def attr_step_self_upd attr_step_refl split: sum.splits)

lemma attr_step_cam_rotation: "attr_step self w (snd (cam_rotation self icam w))"
  by (simp add: cam_rotation_def Let_def attr_step_self_upd attr_step_refl split: sum.splits)

lemma attr_step_pointing:
  "attr_step self w
     (snd ((case sc of
              None \<Rightarrow> (\<lambda>w'. (Inr (), w'))
            | Some sc' \<Rightarrow>
                bindW (sky_to_sc_mat self sc')
                  (\<lambda>u. bindW (forW (cam_rotation self) [0, 1, 2, 3])
                    (\<lambda>u w'. (Inr (), self_upd self (\<lambda>g. g\<lparr>havePointing := True\<rparr>) w')))) w))"
proof (cases sc)
  case None
  then show ?thesis by (simp add: attr_step_refl)
next
  case (Some sc')
  have "attr_step self w
     (snd (bindW (sky_to_sc_mat self sc')
                  (\<lambda>u. bindW (forW (cam_rotation self) [0, 1, 2, 3])
                    (\<lambda>u w'. (Inr (), self_upd self (\<lambda>g. g\<lparr>havePointing := True\<rparr>) w'))) w))"
  proof (rule bindW_inv [where P = "attr_step self w"])
    show "attr_step self w (snd (sky_to_sc_mat self sc' w))" by (rule attr_step_sky)
  next
    fix x w1 assume a: "attr_step self w w1"
    show "attr_step self w (snd (bindW (forW (cam_rotation self) [0, 1, 2, 3])
                    (\<lambda>u w'. (Inr (), self_upd self (\<lambda>g. g\<lparr>havePointing := True\<rparr>) w')) w1))"
    proof (rule bindW_inv [where P = "attr_step self w"])
      show "attr_step self w (snd (forW (cam_rotation self) [0, 1, 2, 3] w1))"
        by (rule forW_inv [where P = "attr_step self w"])
          (auto intro: a attr_step_trans attr_step_cam_rotation)
    next
      fix y w2 assume "attr_step self w w2"
      then show "attr_step self w (snd (Inr (), self_upd self (\<lambda>g. g\<lparr>havePointing := True\<rparr>) w2))"
        using attr_step_self_upd attr_step_trans by fastforce
    qed
  qed
  then show ?thesis using Some by simp
qed

lemma objs_read: "objs (snd (read_levine_fpg_file icam f w)) = objs w"
  by (simp add: read_levine_fpg_file_def print_def Let_def split: file_status.splits)

lemma objs_read_cam: "objs (snd (read_cam_file fl icam w)) = objs w"
  by (simp add: read_cam_file_def objs_read split: option.splits)

lemma objs_read_loop: "objs (snd (forW (read_cam_file fl) xs w)) = objs w"
  by (rule forW_inv [where P = "\<lambda>w'. objs w' = objs w"]) (simp_all add: objs_read_cam)

lemma same_others_init: "same_others self w (snd (Levine_FPG_init self sc fl w))"
  unfolding Levine_FPG_init_def read_all_levine_fpg_files_def
proof (intro bindW_inv [where P = "same_others self w"])
  show "same_others self w (snd (forW (read_cam_file fl) [0, 1, 2, 3] (self_upd self (\<lambda>g. fpg_zeros) w)))"
    unfolding same_others_def objs_read_loop by (simp add: self_upd_def)
next
  fix x w1 assume "same_others self w w1"
  moreover have "attr_step self w1 (snd (forW (parse_cam self) [0, 1, 2, 3] w1))"
    by (rule forW_inv [where P = "attr_step self w1"])
      (auto intro: attr_step_refl attr_step_trans attr_step_parse)
  ultimately show "same_others self w (snd (forW (parse_cam self) [0, 1, 2, 3] w1))"
    by (simp add: attr_step_def same_others_def)
next
  fix x w1 assume "same_others self w w1"
  then show "same_others self w
     (snd ((case sc of
              None \<Rightarrow> (\<lambda>w'. (Inr (), w'))
            | Some sc' \<Rightarrow>
                bindW (sky_to_sc_mat self sc')
                  (\<lambda>u. bindW (forW (cam_rotation self) [0, 1, 2, 3])
                    (\<lambda>u w'. (Inr (), self_upd self (\<lambda>g. g\<lparr>havePointing := True\<rparr>) w')))) w1))"
    using attr_step_pointing [of self w1 sc] by (simp add: attr_step_def same_others_def)
qed

lemma snd_new:
  "snd (Levine_FPG_new sc fl w) =
   snd (Levine_FPG_init (length (objs w)) sc fl (w\<lparr>objs := objs w @ [fpg_zeros]\<rparr>))"
  by (simp add: Levine_FPG_new_def Let_def split: prod.splits sum.splits)

lemma new_frame:
  assumes "a < length (objs w)"
  shows "objs (snd (Levine_FPG_new sc fl w)) ! a = objs w ! a"
    and "length (objs (snd (Levine_FPG_new sc fl w))) = length (objs w) + 1"
  using assms same_others_init [of "length (objs w)" "w\<lparr>objs := objs w @ [fpg_zeros]\<rparr>" sc fl]
  by (simp_all add: snd_new same_others_def nth_append)


subsection \<open>What the read loop stores in the class-level list\<close>

lemma read_cam_step:
  assumes "icam < length (parm_dict_list w)" "fl_ok fl" "icam < 4"
  obtains w' where "read_cam_file fl icam w = (Inr (), w')"
    "parm_dict_list w' = (parm_dict_list w)[icam := loaded_dict (files w) fl icam]"
    "files w' = files w"
proof -
  let ?f = "file_of fl icam"
  have r: "read_cam_file fl icam w = read_levine_fpg_file icam ?f w"
    using assms(2,3) by (simp add: read_cam_file_def file_of_def fl_ok_def split: option.splits)
  have "fst (read_levine_fpg_file icam ?f w) = Inr () \<and>
        parm_dict_list (snd (read_levine_fpg_file icam ?f w)) =
          (parm_dict_list w)[icam := loaded_dict (files w) fl icam] \<and>
        files (snd (read_levine_fpg_file icam ?f w)) = files w"
    using assms(1)
    by (simp add: read_levine_fpg_file_def print_def Let_def loaded_dict_def split: file_status.splits)
  then show ?thesis using that [of "snd (read_levine_fpg_file icam ?f w)"] r
    by (metis prod.collapse)
qed

lemma read_loop:
  assumes "length (parm_dict_list w) = 4" "fl_ok fl"
  obtains w' where "forW (read_cam_file fl) [0, 1, 2, 3] w = (Inr (), w')"
    "parm_dict_list w' = map (loaded_dict (files w) fl) [0, 1, 2, 3]"
    "files w' = files w"
proof -
  obtain a b c d where abcd: "parm_dict_list w = [a, b, c, d]"
    using assms(1) by (auto simp: length_Suc_conv numeral_eq_Suc)
  obtain w1 where 1: "read_cam_file fl 0 w = (Inr (), w1)"
    "parm_dict_list w1 = (parm_dict_list w)[0 := loaded_dict (files w) fl 0]" "files w1 = files w"
    using read_cam_step [of 0 w fl] assms by auto
  obtain w2 where 2: "read_cam_file fl 1 w1 = (Inr (), w2)"
    "parm_dict_list w2 = (parm_dict_list w1)[1 := loaded_dict (files w1) fl 1]" "files w2 = files w1"
    using read_cam_step [of 1 w1 fl] assms 1 by auto
  obtain w3 where 3: "read_cam_file fl 2 w2 = (Inr (), w3)"
    "parm_dict_list w3 = (parm_dict_list w2)[2 := loaded_dict (files w2) fl 2]" "files w3 = files w2"
    using read_cam_step [of 2 w2 fl] assms 1 2 by auto
  obtain w4 where 4: "read_cam_file fl 3 w3 = (Inr (), w4)"
    "parm_dict_list w4 = (parm_dict_list w3)[3 := loaded_dict (files w3) fl 3]" "files w4 = files w3"
    using read_cam_step [of 3 w3 fl] assms 1 2 3 by auto
  have "forW (read_cam_file fl) [0, 1, 2, 3] w = (Inr (), w4)"
    using 1(1) 2(1) 3(1) 4(1) by simp
  moreover have "parm_dict_list w4 = map (loaded_dict (files w) fl) [0, 1, 2, 3]"
    using 1 2 3 4 abcd by simp
  moreover have "files w4 = files w" using 1 2 3 4 by simp
  ultimately show ?thesis using that by blast
qed

subsection \<open>Success of the parse loop\<close>

lemma keys_same: "map fst (cam_assignments icam) = camera_keys"
  by (simp add: camera_keys_def cam_assignments_def ccd_assignments_def)

lemma assign_ok:
  assumes "list_all (\<lambda>a. pd (fst a) \<noteq> None) xs"
  shows "fst (forW (assign_parm self pd) xs w) = Inr ()"
proof -
  have "fst (forW (assign_parm self pd) xs w) = Inr () \<and> True"
    by (rule forW_ok [where P = "\<lambda>w. True"]) (use assms in \<open>auto simp: list_all_iff assign_parm_def\<close>)
  then show ?thesis by simp
qed

lemma parse_ok:
  assumes "icam < length (parm_dict_list w)" "keys_ok (parm_dict_list w ! icam)"
  shows "fst (parse_cam self icam w) = Inr ()"
proof -
  have "list_all (\<lambda>k. (parm_dict_list w ! icam) k \<noteq> None) (map fst (cam_assignments icam))"
    using assms(2) by (simp only: keys_same keys_ok_def)
  then have "list_all (\<lambda>a. (parm_dict_list w ! icam) (fst a) \<noteq> None) (cam_assignments icam)"
    by (simp add: list_all_iff)
  then show ?thesis using assms(1) by (simp add: parse_cam_def assign_ok)
qed

lemma parse_loop_ok:
  assumes "length (parm_dict_list w) = 4" "\<forall>i<4. keys_ok (parm_dict_list w ! i)"
  shows "fst (forW (parse_cam self) [0, 1, 2, 3] w) = Inr ()"
proof -
  have "fst (forW (parse_cam self) [0, 1, 2, 3] w) = Inr () \<and>
        parm_dict_list (snd (forW (parse_cam self) [0, 1, 2, 3] w)) = parm_dict_list w"
  proof (rule forW_ok [where P = "\<lambda>w'::world. parm_dict_list w' = parm_dict_list w"])
    show "parm_dict_list w = parm_dict_list w" by simp
  next
    fix x and w1 :: world
    assume x: "x \<in> set [0, 1, 2, 3::nat]" and p: "parm_dict_list w1 = parm_dict_list w"
    have "x < 4" using x by auto
    then have "fst (parse_cam self x w1) = Inr ()"
      using assms p by (intro parse_ok) simp_all
    moreover have "parm_dict_list (snd (parse_cam self x w1)) = parm_dict_list w1"
      using attr_step_parse [of self w1 x] by (simp add: attr_step_def)
    ultimately show "fst (parse_cam self x w1) = Inr () \<and>
        parm_dict_list (snd (parse_cam self x w1)) = parm_dict_list w"
      using p by simp
  qed
  then show ?thesis by simp
qed

lemma init_none:
  "Levine_FPG_init self None fl w =
     (case forW (read_cam_file fl) [0, 1, 2, 3] (self_upd self (\<lambda>g. fpg_zeros) w) of
        (Inl e, w') \<Rightarrow> (Inl e, w')
      | (Inr u, w') \<Rightarrow> forW (parse_cam self) [0, 1, 2, 3] w')"
  by (auto simp: Levine_FPG_init_def read_all_levine_fpg_files_def bindW_def split: prod.splits sum.splits)

lemma new_ok:
  assumes "length (parm_dict_list w) = 4" "fl_ok fl" "\<forall>i<4. keys_ok (loaded_dict (files w) fl i)"
  shows "fst (Levine_FPG_new None fl w) = Inr (length (objs w))"
proof -
  let ?self = "length (objs w)"
  let ?w0 = "self_upd ?self (\<lambda>g. fpg_zeros) (w\<lparr>objs := objs w @ [fpg_zeros]\<rparr>)"
  have l: "length (parm_dict_list ?w0) = 4" "files ?w0 = files w"
    using assms(1) by (simp_all add: self_upd_def)
  obtain w4 where r: "forW (read_cam_file fl) [0, 1, 2, 3] ?w0 = (Inr (), w4)"
    "parm_dict_list w4 = map (loaded_dict (files ?w0) fl) [0, 1, 2, 3]"
    using read_loop [OF l(1) assms(2)] by blast
  have k: "\<forall>i<4. keys_ok (parm_dict_list w4 ! i)"
  proof (intro allI impI)
    fix i :: nat assume "i < 4"
    then have "i = 0 \<or> i = 1 \<or> i = 2 \<or> i = 3" by auto
    then show "keys_ok (parm_dict_list w4 ! i)" using assms(3) r(2) l(2) by auto
  qed
  have "fst (forW (parse_cam ?self) [0, 1, 2, 3] w4) = Inr ()"
    using k r(2) by (intro parse_loop_ok) simp_all
  then have "fst (Levine_FPG_init ?self None fl (w\<lparr>objs := objs w @ [fpg_zeros]\<rparr>)) = Inr ()"
    by (simp only: init_none r(1)) simp
  then show ?thesis
    by (auto simp: Levine_FPG_new_def Let_def split: prod.splits sum.splits)
qed

lemma class_after_new:
  assumes "length (parm_dict_list w) = 4" "fl_ok fl"
  shows "parm_dict_list (snd (Levine_FPG_new sc fl w)) = map (loaded_dict (files w) fl) [0, 1, 2, 3]"
    and "files (snd (Levine_FPG_new sc fl w)) = files w"
proof -
  let ?self = "length (objs w)"
  let ?T = "map (loaded_dict (files w) fl) [0, 1, 2, 3]"
  let ?P = "\<lambda>w'::world. parm_dict_list w' = ?T \<and> files w' = files w"
  let ?w0 = "self_upd ?self (\<lambda>g. fpg_zeros) (w\<lparr>objs := objs w @ [fpg_zeros]\<rparr>)"
  have l: "length (parm_dict_list ?w0) = 4" "files ?w0 = files w"
    using assms(1) by (simp_all add: self_upd_def)
  obtain w4 where r: "forW (read_cam_file fl) [0, 1, 2, 3] ?w0 = (Inr (), w4)"
    "parm_dict_list w4 = map (loaded_dict (files ?w0) fl) [0, 1, 2, 3]" "files w4 = files ?w0"
    using read_loop [OF l(1) assms(2)] by blast
  have keep: "?P (snd (step w1))" if "?P w1" "attr_step ?self w1 (snd (step w1))" for step w1
    using that by (simp add: attr_step_def)
  have "?P (snd (Levine_FPG_init ?self sc fl (w\<lparr>objs := objs w @ [fpg_zeros]\<rparr>)))"
    unfolding Levine_FPG_init_def read_all_levine_fpg_files_def
  proof (intro bindW_inv [where P = ?P])
    show "?P (snd (forW (read_cam_file fl) [0, 1, 2, 3] ?w0))"
      using r l by simp
  next
    fix x w1 assume p: "?P w1"
    have "attr_step ?self w1 (snd (forW (parse_cam ?self) [0, 1, 2, 3] w1))"
      by (rule forW_inv [where P = "attr_step ?self w1"])
        (auto intro: attr_step_refl attr_step_trans attr_step_parse)
    then show "?P (snd (forW (parse_cam ?self) [0, 1, 2, 3] w1))" using p by (simp add: attr_step_def)
  next
    fix x w1 assume p: "?P w1"
    then show "?P
     (snd ((case sc of
              None \<Rightarrow> (\<lambda>w'. (Inr (), w'))
            | Some sc' \<Rightarrow>
                bindW (sky_to_sc_mat ?self sc')
                  (\<lambda>u. bindW (forW (cam_rotation ?self) [0, 1, 2, 3])
                    (\<lambda>u w'. (Inr (), self_upd ?self (\<lambda>g. g\<lparr>havePointing := True\<rparr>) w')))) w1))"
      using attr_step_pointing [of ?self w1 sc] by (simp add: attr_step_def)
  qed
  then show "parm_dict_list (snd (Levine_FPG_new sc fl w)) = ?T"
    and "files (snd (Levine_FPG_new sc fl w)) = files w"
    by (simp_all add: snd_new)
qed

subsection \<open>havePointing stays False without a pointing\<close>

lemma setters_keep_flag:
  "\<forall>a\<in>set (cam_assignments icam). havePointing (snd a v g) = havePointing g"
  by (simp add: cam_assignments_def ccd_assignments_def set_eulcam_def set_optcon_def
      set_asymang_def set_asymfac_def set_ccdxy0_def set_pixsz_def set_ccdang_def set_ccdtilt_def)

lemma flag_assign:
  assumes "a \<in> set (cam_assignments icam)"
  shows "havePointing (objs (snd (assign_parm self pd a w)) ! self) = havePointing (objs w ! self)"
  using setters_keep_flag [of icam] assms
  by (cases "self < length (objs w)")
    (auto simp: assign_parm_def self_upd_def list_update_beyond split: option.splits)

lemma flag_parse:
  "havePointing (objs (snd (parse_cam self icam w)) ! self) = havePointing (objs w ! self)"
proof (cases "icam < length (parm_dict_list w)")
  case True
  have "havePointing (objs (snd (forW (assign_parm self (parm_dict_list w ! icam)) (cam_assignments icam) w)) ! self)
        = havePointing (objs w ! self)"
    by (rule forW_inv [where P = "\<lambda>w'::world. havePointing (objs w' ! self) = havePointing (objs w ! self)"])
      (simp_all add: flag_assign)
  then show ?thesis using True by (simp add: parse_cam_def)
next
  case False
  then show ?thesis by (simp add: parse_cam_def)
qed

lemma flag_init_none:
  assumes "self < length (objs w)"
  shows "\<not> havePointing (objs (snd (Levine_FPG_init self None fl w)) ! self)"
proof -
  let ?P = "\<lambda>w'::world. \<not> havePointing (objs w' ! self)"
  let ?w0 = "self_upd self (\<lambda>g. fpg_zeros) w"
  have 0: "?P ?w0" using assms by (simp add: self_upd_def fpg_zeros_def)
  have 1: "?P (snd (forW (read_cam_file fl) [0, 1, 2, 3] ?w0))"
    unfolding objs_read_loop by (rule 0)
  have 2: "?P (snd (forW (parse_cam self) [0, 1, 2, 3] w1))" if "?P w1" for w1
    by (rule forW_inv [where P = ?P]) (simp_all add: that flag_parse)
  show ?thesis
    unfolding Levine_FPG_init_def read_all_levine_fpg_files_def
    by (intro bindW_inv [where P = ?P] 1 2) simp_all
qed

text \<open>
  Claim C6: a geometry object constructed without a pointing has
  \<open>havePointing = False\<close>, and \<open>radec2pix\<close> on it, for any lists of right ascensions and
  declinations, prints \<^verbatim>\<open>Spacecraft Pointing Not specified!\<close> and returns six empty
  arrays; it does not raise.
\<close>

theorem radec2pix_without_pointing:
  assumes "Levine_FPG_new None fl w = (Inr self, w')"
  shows "radec2pix self ra_list dec_list w' =
           (Inr no_hits, print ''Spacecraft Pointing Not specified!'' w')"
proof -
  have s: "self = length (objs w)"
    using assms by (auto simp: Levine_FPG_new_def Let_def split: prod.splits sum.splits)
  have w': "w' = snd (Levine_FPG_init self None fl (w\<lparr>objs := objs w @ [fpg_zeros]\<rparr>))"
    using assms snd_new [of None fl w] s by simp
  have "\<not> havePointing (objs w' ! self)"
    unfolding w' by (rule flag_init_none) (simp add: s)
  then show ?thesis by (simp add: radec2pix_def Let_def)
qed


subsection \<open>The hard-coded tables have every key\<close>

lemma camera_keys_cam0: "map fst parm_dict_cam0 = camera_keys"
  by (simp add: camera_keys_def cam_assignments_def ccd_assignments_def ccd_key_def fmt_1d_def
      parm_dict_cam0_def)

lemma camera_keys_cam1: "map fst parm_dict_cam1 = camera_keys"
  by (simp add: camera_keys_def cam_assignments_def ccd_assignments_def ccd_key_def fmt_1d_def
      parm_dict_cam1_def)

lemma camera_keys_cam2: "map fst parm_dict_cam2 = camera_keys"
  by (simp add: camera_keys_def cam_assignments_def ccd_assignments_def ccd_key_def fmt_1d_def
      parm_dict_cam2_def)

lemma camera_keys_cam3: "map fst parm_dict_cam3 = camera_keys"
  by (simp add: camera_keys_def cam_assignments_def ccd_assignments_def ccd_key_def fmt_1d_def
      parm_dict_cam3_def)

lemma keys_ok_map_of: "map fst rows = camera_keys \<Longrightarrow> keys_ok (map_of rows)"
proof -
  assume a: "map fst rows = camera_keys"
  have "\<forall>k\<in>set (map fst rows). map_of rows k \<noteq> None"
    by (auto simp: map_of_eq_None_iff)
  then show ?thesis using a by (simp add: keys_ok_def list_all_iff)
qed

lemma dom_fold_rows:
  "dom (fold (\<lambda>(k, v) m. m(k \<mapsto> v)) rows m) = dom m \<union> fst ` set rows"
  by (induction rows arbitrary: m) auto

lemma keys_ok_rows: "map fst rows = camera_keys \<Longrightarrow> keys_ok (dict_of_rows rows)"
proof -
  assume a: "map fst rows = camera_keys"
  have "dom (dict_of_rows rows) = fst ` set rows"
    by (simp add: dict_of_rows_def dom_fold_rows)
  then have "\<forall>k\<in>set (map fst rows). dict_of_rows rows k \<noteq> None" by auto
  then show ?thesis using a by (simp add: keys_ok_def list_all_iff)
qed

lemma keys_ok_hard_coded: "\<forall>i<4. keys_ok (hard_coded_parms i)"
proof (intro allI impI)
  fix i :: nat assume "i < 4"
  then have "i = 0 \<or> i = 1 \<or> i = 2 \<or> i = 3" by auto
  then show "keys_ok (hard_coded_parms i)"
    by (auto simp: hard_coded_parms_def keys_ok_map_of camera_keys_cam0 camera_keys_cam1
        camera_keys_cam2 camera_keys_cam3)
qed


lemma loaded_no_files: "loaded_dict no_files None i = hard_coded_parms i"
  by (simp add: loaded_dict_def no_files_def)

lemma new_default: "Levine_FPG_new None None (module_loaded no_files) = (Inr 0, world_default)"
proof -
  have "fst (Levine_FPG_new None None (module_loaded no_files)) = Inr (length (objs (module_loaded no_files)))"
    by (rule new_ok) (simp_all add: module_loaded_def fl_ok_def loaded_no_files keys_ok_hard_coded)
  then have "fst (Levine_FPG_new None None (module_loaded no_files)) = Inr 0"
    by (simp add: module_loaded_def)
  then show ?thesis unfolding world_default_def by (metis prod.collapse)
qed

theorem radec2pix_without_pointing_witness:
  "Levine_FPG_new None None (module_loaded no_files) = (Inr 0, world_default) \<and>
   radec2pix 0 [84.291] [- 80.469] world_default =
     (Inr no_hits, print ''Spacecraft Pointing Not specified!'' world_default)"
  using radec2pix_without_pointing [OF new_default, of "[84.291]" "[- 80.469]"] new_default
  by simp


subsection \<open>Instances and the class-level list\<close>

lemma loaded_default_example: "i < 4 \<Longrightarrow> loaded_dict example_files None i = hard_coded_parms i"
proof -
  assume "i < 4"
  then have "i = 0 \<or> i = 1 \<or> i = 2 \<or> i = 3" by auto
  then show ?thesis
    by (auto simp: loaded_dict_def example_files_def file_of_def default_fpg_file_list_def)
qed

lemma example_list_ok: "fl_ok (Some example_file_list)"
  by (simp add: fl_ok_def example_file_list_def)

lemma loaded_list_example: "i < 4 \<Longrightarrow> loaded_dict example_files (Some example_file_list) i = dict_of_rows parm_dict_cam1"
proof -
  assume "i < 4"
  then have "i = 0 \<or> i = 1 \<or> i = 2 \<or> i = 3" by auto
  then show ?thesis
    by (auto simp: loaded_dict_def example_files_def file_of_def example_file_list_def)
qed

lemma world1_class:
  "parm_dict_list world1 = map hard_coded_parms [0, 1, 2, 3]" "files world1 = example_files"
  using class_after_new [of world0 None None]
  by (simp_all add: world1_def world0_def module_loaded_def fl_ok_def loaded_default_example)

lemma world1_new: "Levine_FPG_new None None world0 = (Inr 0, world1)"
proof -
  have "fst (Levine_FPG_new None None world0) = Inr (length (objs world0))"
    by (rule new_ok)
      (simp_all add: world0_def module_loaded_def fl_ok_def loaded_default_example keys_ok_hard_coded)
  then have "fst (Levine_FPG_new None None world0) = Inr 0"
    by (simp add: world0_def module_loaded_def)
  then show ?thesis unfolding world1_def by (metis prod.collapse)
qed

lemma length_objs_new: "length (objs (snd (Levine_FPG_new sc fl w))) = length (objs w) + 1"
  using same_others_init [of "length (objs w)" "w\<lparr>objs := objs w @ [fpg_zeros]\<rparr>" sc fl]
  by (simp add: snd_new same_others_def)

lemma world1_objs: "length (objs world1) = 1"
  by (simp add: world1_def length_objs_new world0_def module_loaded_def)

lemma world2_class:
  "parm_dict_list world2 = map (\<lambda>i. dict_of_rows parm_dict_cam1) [0, 1, 2, 3::nat]"
  using class_after_new(1) [of world1 "Some example_file_list" None]
  by (simp add: world2_def world1_class example_list_ok loaded_list_example)

lemma world2_new: "Levine_FPG_new None (Some example_file_list) world1 = (Inr 1, world2)"
proof -
  have "fst (Levine_FPG_new None (Some example_file_list) world1) = Inr (length (objs world1))"
    by (rule new_ok)
      (simp_all add: world1_class example_list_ok loaded_list_example
        keys_ok_rows camera_keys_cam1)
  then have "fst (Levine_FPG_new None (Some example_file_list) world1) = Inr 1"
    by (simp add: world1_objs)
  then show ?thesis unfolding world2_def by (metis prod.collapse)
qed

lemma ang1_hard_coded: "hard_coded_parms 0 ''ang1_cam1'' = Some 0.101588"
  by (simp add: hard_coded_parms_def parm_dict_cam0_def)

lemma ang1_file: "dict_of_rows parm_dict_cam1 ''ang1_cam1'' = Some (- 0.179412)"
  by (simp add: dict_of_rows_def parm_dict_cam1_def)

text \<open>
  Claim C7, as stated, fails: \<open>parm_dict_list\<close> is an attribute of the class, one list
  for all instances. After \<^verbatim>\<open>a = Levine_FPG()\<close> the list that \<^verbatim>\<open>a.parm_dict_list\<close> reads
  holds the hard-coded tables; a second construction with a parameter file replaces its
  entries, so what is observable through \<^verbatim>\<open>a\<close> has changed.
\<close>

theorem shared_parm_dict_list_counterexample:
  "Levine_FPG_new None None world0 = (Inr 0, world1) \<and>
   Levine_FPG_new None (Some example_file_list) world1 = (Inr 1, world2) \<and>
   observable world2 0 \<noteq> observable world1 0"
proof -
  have a: "(parm_dict_list world1 ! 0) ''ang1_cam1'' = Some 0.101588"
    by (simp add: world1_class ang1_hard_coded)
  have b: "(parm_dict_list world2 ! 0) ''ang1_cam1'' = Some (- 0.179412)"
    by (simp add: world2_class ang1_file)
  have "parm_dict_list world2 \<noteq> parm_dict_list world1"
  proof
    assume "parm_dict_list world2 = parm_dict_list world1"
    then have "(parm_dict_list world2 ! 0) ''ang1_cam1'' = (parm_dict_list world1 ! 0) ''ang1_cam1''"
      by simp
    then show False by (simp only: a b) simp
  qed
  then show ?thesis using world1_new world2_new by (simp add: observable_def)
qed

text \<open>
  Claim C7, amended: constructing a new geometry object leaves the attributes of every
  instance constructed before (its parameter arrays, rotation matrices and
  \<open>havePointing\<close>) unchanged, whether or not the constructor raises. The list
  \<open>parm_dict_list\<close> is shared by all instances: a construction with a file list for four
  cameras replaces its four entries by the dictionaries loaded for the new instance.
\<close>

theorem new_instance_frame:
  "(\<forall>a<length (objs w). objs (snd (Levine_FPG_new sc fl w)) ! a = objs w ! a) \<and>
   (length (parm_dict_list w) = 4 \<and> fl_ok fl \<longrightarrow>
      parm_dict_list (snd (Levine_FPG_new sc fl w)) = map (loaded_dict (files w) fl) [0, 1, 2, 3])"
  using new_frame(1) [of _ w sc fl] class_after_new(1) [of w fl sc] by blast

theorem new_instance_frame_witness:
  "objs world2 ! 0 = objs world1 ! 0 \<and>
   parm_dict_list world2 = map (loaded_dict example_files (Some example_file_list)) [0, 1, 2, 3]"
  using new_instance_frame [of world1 None "Some example_file_list"]
  by (simp add: world2_def [symmetric] world1_objs world1_class example_list_ok)


subsection \<open>The acceptance window of SectFromCoords\<close>


















end
